theory Spec2Isabelle
  imports Complex_Main "HOL-Library.Sublist"
begin

section \<open>JSON values and the Python operations the handlers apply to them\<close>

text \<open>
  The handlers of \<^verbatim>\<open>optional.py\<close> work on whatever \<^verbatim>\<open>request.json\<close> and the upstream
  \<^verbatim>\<open>response.json()\<close> deliver: dynamically typed JSON values. A dict is an association list
  with unique keys, read with \<open>map_of\<close>. A Python \<^verbatim>\<open>str\<close> is given by its UTF-8 encoding,
  a list of bytes (\<open>char list\<close>): a prefix test, a search for a substring and a cut at an
  ASCII separator give the same on the bytes as on the code points.
\<close>

datatype json =
    JNull
  | JBool bool
  | JInt int
  | JFloat real
  | JStr string
  | JArr "json list"
  | JObj "(string \<times> json) list"

text \<open>
  The exceptions the handlers can meet. Each handler catches \<^verbatim>\<open>Exception\<close> at its outer
  boundary, so only the fact that one was raised, and which, is kept.
\<close>

text \<open>The code points of a string: each starts with a lead byte that tells how many
  bytes it takes.\<close>

definition utf8_width :: "char \<Rightarrow> nat" where
  "utf8_width c =
     (if (of_char c :: nat) < 0x80 then 1
      else if (of_char c :: nat) < 0xE0 then 2
      else if (of_char c :: nat) < 0xF0 then 3
      else 4)"

fun code_points :: "string \<Rightarrow> string list" where
  "code_points [] = []"
| "code_points (c # cs) =
     (c # take (utf8_width c - 1) cs) # code_points (drop (utf8_width c - 1) cs)"

datatype pyexc =
    AttributeError
  | KeyError
  | TypeError
  | IndexError
  | UnicodeDecodeError
  | BadRequest
  | JSONDecodeError
  | RequestException string

definition bind_exc :: "pyexc + 'a \<Rightarrow> ('a \<Rightarrow> pyexc + 'b) \<Rightarrow> pyexc + 'b" where
  "bind_exc r f = (case r of Inl e \<Rightarrow> Inl e | Inr x \<Rightarrow> f x)"

text \<open>Truth value testing: \<^verbatim>\<open>if v\<close>, \<^verbatim>\<open>not v\<close>, \<^verbatim>\<open>a or b\<close>, \<^verbatim>\<open>a and b\<close>.\<close>

fun truthy :: "json \<Rightarrow> bool" where
  "truthy JNull = False"
| "truthy (JBool b) = b"
| "truthy (JInt i) = (i \<noteq> 0)"
| "truthy (JFloat x) = (x \<noteq> 0)"
| "truthy (JStr s) = (s \<noteq> [])"
| "truthy (JArr xs) = (xs \<noteq> [])"
| "truthy (JObj kv) = (kv \<noteq> [])"

text \<open>\<^verbatim>\<open>d.get(k, default)\<close>: only a dict has the attribute \<^verbatim>\<open>get\<close>.\<close>

fun dict_get :: "json \<Rightarrow> string \<Rightarrow> json \<Rightarrow> pyexc + json" where
  "dict_get (JObj kv) k dflt = Inr (case map_of kv k of Some v \<Rightarrow> v | None \<Rightarrow> dflt)"
| "dict_get _ k dflt = Inl AttributeError"

text \<open>\<^verbatim>\<open>v['k']\<close> with a string key: a missing key raises KeyError, a value that is not a
  dict raises TypeError (a list or string wants integer indices, the rest is not
  subscriptable).\<close>

fun getitem :: "json \<Rightarrow> string \<Rightarrow> pyexc + json" where
  "getitem (JObj kv) k = (case map_of kv k of Some v \<Rightarrow> Inr v | None \<Rightarrow> Inl KeyError)"
| "getitem _ k = Inl TypeError"

text \<open>\<^verbatim>\<open>v[0]\<close>: the first element of a list or string; a dict from JSON has string keys
  only, so the key \<open>0\<close> is missing.\<close>

fun getitem0 :: "json \<Rightarrow> pyexc + json" where
  "getitem0 (JArr []) = Inl IndexError"
| "getitem0 (JArr (x # xs)) = Inr x"
| "getitem0 (JStr s) =
     (case code_points s of [] \<Rightarrow> Inl IndexError | cp # cps \<Rightarrow> Inr (JStr cp))"
| "getitem0 (JObj kv) = Inl KeyError"
| "getitem0 _ = Inl TypeError"

text \<open>\<^verbatim>\<open>'k' in v\<close> for a string \<open>k\<close>: key membership in a dict, element membership in a
  list, substring test in a string.\<close>

fun contains_key :: "string \<Rightarrow> json \<Rightarrow> pyexc + bool" where
  "contains_key k (JObj kv) = Inr (k \<in> fst ` set kv)"
| "contains_key k (JArr xs) = Inr (JStr k \<in> set xs)"
| "contains_key k (JStr s) = Inr (sublist k s)"
| "contains_key k _ = Inl TypeError"

fun py_len :: "json \<Rightarrow> pyexc + nat" where
  "py_len (JArr xs) = Inr (length xs)"
| "py_len (JStr s) = Inr (length (code_points s))"
| "py_len (JObj kv) = Inr (length kv)"
| "py_len _ = Inl TypeError"

text \<open>\<^verbatim>\<open>for x in v\<close>: the elements of a list, the keys of a dict, the code points of a
  string.\<close>

fun py_iter :: "json \<Rightarrow> pyexc + json list" where
  "py_iter (JArr xs) = Inr xs"
| "py_iter (JObj kv) = Inr (map (\<lambda>p. JStr (fst p)) kv)"
| "py_iter (JStr s) = Inr (map JStr (code_points s))"
| "py_iter _ = Inl TypeError"

text \<open>A replacement field \<^verbatim>\<open>{v}\<close> of an f-string: a string stands for itself; any other
  value is rendered by Python's \<^verbatim>\<open>str\<close>, which is a parameter here.\<close>

fun fmt :: "(json \<Rightarrow> string) \<Rightarrow> json \<Rightarrow> string" where
  "fmt py_str (JStr s) = s"
| "fmt py_str v = py_str v"

section \<open>String operations\<close>

definition newline :: char where
  "newline = CHR 0x0A"

text \<open>\<^verbatim>\<open>re.match(r'^data:([^;]+);base64,(.+)$', s)\<close>, giving groups 1 and 2. The class
  \<^verbatim>\<open>[^;]\<close> takes any character but the semicolon, so group 1 is what stands between
  \<^verbatim>\<open>data:\<close> and the first semicolon, and it is not empty. The dot takes any character
  but the line feed, and \<^verbatim>\<open>$\<close> stands at the end of the string or before a line feed
  that ends it: group 2 is the rest without such a final line feed, not empty and free
  of line feeds.\<close>

definition match_data_uri :: "string \<Rightarrow> (string \<times> string) option" where
  "match_data_uri s =
     (if \<not> prefix ''data:'' s then None
      else
        let r = drop 5 s;
            mime = takeWhile (\<lambda>c. c \<noteq> CHR '';'') r;
            r2 = dropWhile (\<lambda>c. c \<noteq> CHR '';'') r
        in if mime = [] \<or> \<not> prefix '';base64,'' r2 then None
           else
             let p = drop 8 r2;
                 payload = (if p \<noteq> [] \<and> last p = newline then butlast p else p)
             in if payload = [] \<or> newline \<in> set payload then None
                else Some (mime, payload))"

text \<open>\<^verbatim>\<open>s.split(sep)\<close> for a separator that is not empty (every separator of the program
  is a literal): \<open>cut_at\<close> finds the leftmost occurrence and gives what stands before and
  after it.\<close>

fun cut_at :: "string \<Rightarrow> string \<Rightarrow> (string \<times> string) option" where
  "cut_at sep [] = None"
| "cut_at sep (c # cs) =
     (if prefix sep (c # cs) then Some ([], drop (length sep) (c # cs))
      else map_option (\<lambda>p. (c # fst p, snd p)) (cut_at sep cs))"

lemma cut_at_shorter: "cut_at sep s = Some (a, b) \<Longrightarrow> sep \<noteq> [] \<Longrightarrow> length b < length s"
proof (induction s arbitrary: a)
  case Nil
  then show ?case by simp
next
  case (Cons c cs)
  show ?case
  proof (cases "prefix sep (c # cs)")
    case True
    with Cons.prems show ?thesis by (cases sep) auto
  next
    case False
    with Cons.prems obtain a' where "cut_at sep cs = Some (a', b)"
      by (cases "cut_at sep cs") auto
    with Cons.IH Cons.prems(2) show ?thesis by fastforce
  qed
qed

function py_split :: "string \<Rightarrow> string \<Rightarrow> string list" where
  "py_split sep s =
     (if sep = [] then [s]
      else case cut_at sep s of None \<Rightarrow> [s] | Some (a, b) \<Rightarrow> a # py_split sep b)"
  by pat_completeness auto
termination
  by (relation "measure (\<lambda>(sep, s). length s)") (auto dest: cut_at_shorter)

declare py_split.simps [simp del]

text \<open>\<^verbatim>\<open>xs[i]\<close> on a list.\<close>

definition index :: "'a list \<Rightarrow> nat \<Rightarrow> pyexc + 'a" where
  "index xs i = (if i < length xs then Inr (xs ! i) else Inl IndexError)"

text \<open>\<^verbatim>\<open>s.strip()\<close>: the white space code points are taken off both ends. They are
  those of \<^verbatim>\<open>str.isspace\<close>: U+0009 to U+000D, U+001C to U+0020, U+0085, U+00A0, U+1680,
  U+2000 to U+200A, U+2028, U+2029, U+202F, U+205F and U+3000, each in its UTF-8
  encoding.\<close>

definition py_space :: "string \<Rightarrow> bool" where
  "py_space cp =
     (cp \<in> set ([[CHR 0x09], [CHR 0x0A], [CHR 0x0B], [CHR 0x0C], [CHR 0x0D],
                  [CHR 0x1C], [CHR 0x1D], [CHR 0x1E], [CHR 0x1F], [CHR 0x20],
                  [CHR 0xC2, CHR 0x85], [CHR 0xC2, CHR 0xA0],
                  [CHR 0xE1, CHR 0x9A, CHR 0x80],
                  [CHR 0xE2, CHR 0x80, CHR 0xA8], [CHR 0xE2, CHR 0x80, CHR 0xA9],
                  [CHR 0xE2, CHR 0x80, CHR 0xAF], [CHR 0xE2, CHR 0x81, CHR 0x9F],
                  [CHR 0xE3, CHR 0x80, CHR 0x80]]
                 @ map (\<lambda>b. [CHR 0xE2, CHR 0x80, b])
                     [CHR 0x80, CHR 0x81, CHR 0x82, CHR 0x83, CHR 0x84, CHR 0x85,
                      CHR 0x86, CHR 0x87, CHR 0x88, CHR 0x89, CHR 0x8A]))"

definition strip :: "string \<Rightarrow> string" where
  "strip s = concat (rev (dropWhile py_space (rev (dropWhile py_space (code_points s)))))"

section \<open>Requests, responses and the upstream provider\<close>

datatype http_verb = GET | POST | OPTIONS

text \<open>An inbound request: its verb and what \<^verbatim>\<open>request.json\<close> gives (the parsed body, or
  the exception Flask raises for a body that is not JSON).\<close>

record request =
  verb :: http_verb
  req_json :: "pyexc + json"

text \<open>What \<^verbatim>\<open>requests.post\<close> returns: \<^verbatim>\<open>response.ok\<close>, \<^verbatim>\<open>response.json()\<close>, and for a
  streamed body the lines \<^verbatim>\<open>response.iter_lines()\<close> delivers. A line is \<open>Some l\<close> for
  bytes \<open>l\<close> that decode as UTF-8 (the empty line is \<open>Some []\<close>) and \<open>None\<close> for bytes that
  do not decode;
  \<open>resp_abort\<close> is the exception the iterator raises after the last line, if any.\<close>

record upstream_response =
  ok :: bool
  resp_json :: "pyexc + json"
  resp_lines :: "string option list"
  resp_abort :: "pyexc option"

text \<open>The surroundings of the process: the API key read from the environment at start,
  the library functions \<^verbatim>\<open>json.loads\<close> (\<open>None\<close> where it raises) and \<^verbatim>\<open>str\<close>, and the
  upstream provider as a function of the URL and the JSON payload posted.\<close>

record env =
  GOOGLE_API_KEY :: string
  json_loads :: "string \<Rightarrow> json option"
  py_str :: "json \<Rightarrow> string"
  requests_post :: "string \<Rightarrow> json \<Rightarrow> pyexc + upstream_response"

text \<open>One event of the outbound stream: \<open>DataJson j\<close> is
  \<^verbatim>\<open>'data: ' + json.dumps(j) + '\n\n'\<close>, \<open>DataExc e\<close> is the same for
  \<^verbatim>\<open>{"error": str(e)}\<close>, and \<open>DataDone\<close> is \<^verbatim>\<open>'data: [DONE]\n\n'\<close>.\<close>

datatype sse = DataJson json | DataExc pyexc | DataDone

text \<open>A response: \<^verbatim>\<open>'', 204\<close>; a plain body; \<^verbatim>\<open>jsonify(body), status\<close>;
  \<^verbatim>\<open>jsonify({'error': str(e)}), 500\<close>; an event stream.\<close>

datatype response =
    Empty204
  | Plain string
  | Json nat json
  | JsonExc pyexc
  | EventStream "sse list"

fun status :: "response \<Rightarrow> nat" where
  "status Empty204 = 204"
| "status (Plain s) = 200"
| "status (Json n j) = n"
| "status (JsonExc e) = 500"
| "status (EventStream evs) = 200"

text \<open>A handler's outcome: its response and the upstream calls made for it, each the
  URL and the payload.\<close>

type_synonym outcome = "response \<times> (string \<times> json) list"

definition GEMINI_API_URL :: string where
  "GEMINI_API_URL = ''https://generativelanguage.googleapis.com/v1beta/models''"

definition not_configured :: outcome where
  "not_configured = (Json 500 (JObj [(''error'', JStr ''GOOGLE_API_KEY not configured'')]), [])"

section \<open>Liveness\<close>

record globals =
  last_request_time :: real

definition warm_up :: "real \<Rightarrow> globals \<Rightarrow> globals" where
  "warm_up now g = g\<lparr>last_request_time := now\<rparr>"

text \<open>\<^verbatim>\<open>int(x)\<close> on a float: truncation towards zero.\<close>

definition py_int :: "real \<Rightarrow> int" where
  "py_int x = (if 0 \<le> x then \<lfloor>x\<rfloor> else \<lceil>x\<rceil>)"

text \<open>\<open>health_check\<close> reads the clock twice: \<open>t1\<close> in \<open>warm_up\<close>, then \<open>t2\<close> for the
  uptime.\<close>

definition health_check :: "real \<Rightarrow> real \<Rightarrow> globals \<Rightarrow> response \<times> globals" where
  "health_check t1 t2 g =
     (let g' = warm_up t1 g;
          uptime = py_int (t2 - last_request_time g')
      in (Json 200 (JObj [(''status'', JStr ''ok''),
                          (''service'', JStr ''lepen-ai-backend''),
                          (''uptime_seconds'', JInt uptime),
                          (''ready'', JBool True)]), g'))"

definition ping :: "real \<Rightarrow> globals \<Rightarrow> response \<times> globals" where
  "ping now g = (Plain ''pong'', warm_up now g)"

text \<open>\<open>stamp\<close> is what \<^verbatim>\<open>time.strftime('%Y-%m-%dT%H:%M:%SZ')\<close> gives.\<close>

definition keepalive :: "real \<Rightarrow> string \<Rightarrow> globals \<Rightarrow> response \<times> globals" where
  "keepalive now stamp g =
     (Json 200 (JObj [(''alive'', JBool True), (''timestamp'', JStr stamp)]), warm_up now g)"

section \<open>The chat endpoint\<close>

fun join_lines :: "string list \<Rightarrow> string" where
  "join_lines [] = []"
| "join_lines [l] = l"
| "join_lines (l # ls) = l @ [newline] @ join_lines ls"

definition chat_system_prompt :: string where
  "chat_system_prompt = join_lines
     [''You are Lepen AI, an intelligent assistant. You can help with:'',
      ''- General conversations and questions'',
      ''- Web searches (use your knowledge to answer)'',
      ''- Location and map information'',
      ''- Weather information'',
      ''- Code generation and debugging'',
      ''- Mathematical calculations (format equations properly using LaTeX)'',
      [],
      ''Be helpful, concise, and friendly. When providing code, use markdown code blocks.'',
      ''For math equations, use LaTeX format: $inline$ or $$block$$'',
      ''Use **bold**, *italic*, and __underline__ for emphasis.'']"

definition build_mode_suffix :: string where
  "build_mode_suffix = [newline, newline] @
     ''You are now in Build mode. Focus on helping with code, programming, and app development. Provide well-structured, clean code with comments.''"

definition inline_data :: "string \<Rightarrow> string \<Rightarrow> json" where
  "inline_data mime payload =
     JObj [(''inlineData'', JObj [(''mimeType'', JStr mime), (''data'', JStr payload)])]"

definition text_part :: "json \<Rightarrow> json" where
  "text_part t = JObj [(''text'', t)]"

text \<open>Lines 108 to 116: the image block of a turn, from \<open>msg_image\<close>. A value that is
  true and not a string has no \<^verbatim>\<open>startswith\<close>.\<close>

fun image_parts :: "json \<Rightarrow> pyexc + json list" where
  "image_parts (JStr s) =
     Inr (if s \<noteq> [] \<and> prefix ''data:'' s
          then (case match_data_uri s of
                  Some (mime, payload) \<Rightarrow> [inline_data mime payload]
                | None \<Rightarrow> [])
          else [])"
| "image_parts v = (if truthy v then Inl AttributeError else Inr [])"

text \<open>Line 107: \<^verbatim>\<open>msg.get('imageData') or (image_data if i == len(messages) - 1 else None)\<close>.\<close>

definition msg_image :: "json \<Rightarrow> json \<Rightarrow> nat \<Rightarrow> json \<Rightarrow> pyexc + json" where
  "msg_image messages image_data i msg =
     bind_exc (dict_get msg ''imageData'' JNull) (\<lambda>own.
       if truthy own then Inr own
       else bind_exc (py_len messages) (\<lambda>n.
         Inr (if int i = int n - 1 then image_data else JNull)))"

text \<open>The body of the loop over \<^verbatim>\<open>enumerate(messages)\<close>, giving the element appended to
  \<^verbatim>\<open>gemini_contents\<close>.\<close>

definition build_turn :: "json \<Rightarrow> json \<Rightarrow> nat \<Rightarrow> json \<Rightarrow> pyexc + json" where
  "build_turn messages image_data i msg =
     bind_exc (getitem msg ''role'') (\<lambda>r.
     bind_exc (msg_image messages image_data i msg) (\<lambda>img.
     bind_exc (image_parts img) (\<lambda>parts.
     bind_exc (getitem msg ''content'') (\<lambda>c.
       Inr (JObj [(''role'', JStr (if r = JStr ''user'' then ''user'' else ''model'')),
                  (''parts'', JArr (parts @ [text_part c]))])))))"

fun build_contents :: "json \<Rightarrow> json \<Rightarrow> nat \<Rightarrow> json list \<Rightarrow> pyexc + json list" where
  "build_contents messages image_data i [] = Inr []"
| "build_contents messages image_data i (msg # rest) =
     bind_exc (build_turn messages image_data i msg) (\<lambda>t.
     bind_exc (build_contents messages image_data (Suc i) rest) (\<lambda>ts. Inr (t # ts)))"

definition chat_url :: "env \<Rightarrow> string" where
  "chat_url env = GEMINI_API_URL @ ''/gemini-2.0-flash:streamGenerateContent?key=''
                  @ GOOGLE_API_KEY env @ ''&alt=sse''"

definition chat_payload :: "json list \<Rightarrow> string \<Rightarrow> json" where
  "chat_payload gemini_contents system_prompt =
     JObj [(''contents'', JArr gemini_contents),
           (''systemInstruction'', JObj [(''parts'', JArr [text_part (JStr system_prompt)])]),
           (''generationConfig'', JObj [(''temperature'', JFloat (7 / 10)),
                                        (''maxOutputTokens'', JInt 8192)])]"

definition delta_event :: "json \<Rightarrow> sse" where
  "delta_event content =
     DataJson (JObj [(''choices'', JArr [JObj [(''delta'', JObj [(''content'', content)])]])])"

definition api_error_event :: sse where
  "api_error_event = DataJson (JObj [(''error'', JStr ''AI API error'')])"

text \<open>Line 147:
  \<^verbatim>\<open>data.get('candidates', [{}])[0].get('content', {}).get('parts', [{}])[0].get('text')\<close>.\<close>

definition chunk_text :: "json \<Rightarrow> pyexc + json" where
  "chunk_text data =
     bind_exc (dict_get data ''candidates'' (JArr [JObj []])) (\<lambda>cands.
     bind_exc (getitem0 cands) (\<lambda>cand.
     bind_exc (dict_get cand ''content'' (JObj [])) (\<lambda>content.
     bind_exc (dict_get content ''parts'' (JArr [JObj []])) (\<lambda>parts.
     bind_exc (getitem0 parts) (\<lambda>part.
       dict_get part ''text'' JNull)))))"

text \<open>Line 148: \<^verbatim>\<open>data['candidates'][0]['content']['parts'][0]['text']\<close>.\<close>

definition first_text :: "json \<Rightarrow> pyexc + json" where
  "first_text data =
     bind_exc (getitem data ''candidates'') (\<lambda>cands.
     bind_exc (getitem0 cands) (\<lambda>cand.
     bind_exc (getitem cand ''content'') (\<lambda>content.
     bind_exc (getitem content ''parts'') (\<lambda>parts.
     bind_exc (getitem0 parts) (\<lambda>part.
       getitem part ''text'')))))"

text \<open>Lines 143 to 151, for one decoded line: the events it yields. Whatever is raised
  inside the inner \<^verbatim>\<open>try\<close> is dropped.\<close>

definition relay_line :: "(string \<Rightarrow> json option) \<Rightarrow> string \<Rightarrow> sse list" where
  "relay_line loads line_str =
     (if prefix ''data: '' line_str then
        (case loads (drop 6 line_str) of
           None \<Rightarrow> []
         | Some data \<Rightarrow>
             (case chunk_text data of
                Inl e \<Rightarrow> []
              | Inr t \<Rightarrow>
                  if truthy t
                  then (case first_text data of
                          Inl e \<Rightarrow> []
                        | Inr content \<Rightarrow> [delta_event content])
                  else []))
      else [])"

text \<open>Lines 141 to 156: the loop over the upstream lines, the sentinel after it, and the
  handler of the outer \<^verbatim>\<open>try\<close>, which yields the error event and nothing after it.\<close>

fun relay :: "(string \<Rightarrow> json option) \<Rightarrow> pyexc option \<Rightarrow> string option list \<Rightarrow> sse list" where
  "relay loads abort [] = (case abort of None \<Rightarrow> [DataDone] | Some e \<Rightarrow> [DataExc e])"
| "relay loads abort (None # ls) = [DataExc UnicodeDecodeError]"
| "relay loads abort (Some l # ls) =
     (if l \<noteq> [] then relay_line loads l else []) @ relay loads abort ls"

definition generate :: "env \<Rightarrow> json list \<Rightarrow> string \<Rightarrow> sse list" where
  "generate env gemini_contents system_prompt =
     (case requests_post env (chat_url env) (chat_payload gemini_contents system_prompt) of
        Inl e \<Rightarrow> [DataExc e]
      | Inr response \<Rightarrow>
          if \<not> ok response then [api_error_event]
          else relay (json_loads env) (resp_abort response) (resp_lines response))"

text \<open>Lines 78 to 119: what the handler computes before it builds the response, the
  contents and the system prompt.\<close>

definition chat_inputs :: "request \<Rightarrow> pyexc + (json list \<times> string)" where
  "chat_inputs req =
     bind_exc (req_json req) (\<lambda>data.
     bind_exc (dict_get data ''messages'' (JArr [])) (\<lambda>messages.
     bind_exc (dict_get data ''mode'' (JStr ''chat'')) (\<lambda>mode.
     bind_exc (dict_get data ''imageData'' JNull) (\<lambda>image_data.
     bind_exc (py_iter messages) (\<lambda>msgs.
     bind_exc (build_contents messages image_data 0 msgs) (\<lambda>gemini_contents.
       Inr (gemini_contents,
            chat_system_prompt @ (if mode = JStr ''code'' then build_mode_suffix else []))))))))"

text \<open>The handler after \<open>warm_up\<close>. The generator posts to the provider once, when the
  response is streamed.\<close>

definition chat_post :: "env \<Rightarrow> request \<Rightarrow> outcome" where
  "chat_post env req =
     (if GOOGLE_API_KEY env = [] then not_configured
      else case chat_inputs req of
             Inl e \<Rightarrow> (JsonExc e, [])
           | Inr (gemini_contents, system_prompt) \<Rightarrow>
               (EventStream (generate env gemini_contents system_prompt),
                [(chat_url env, chat_payload gemini_contents system_prompt)]))"

definition chat :: "env \<Rightarrow> request \<Rightarrow> real \<Rightarrow> globals \<Rightarrow> outcome \<times> globals" where
  "chat env req now g =
     (if verb req = OPTIONS then ((Empty204, []), g)
      else (chat_post env req, warm_up now g))"

section \<open>The image endpoint\<close>

text \<open>Lines 192 to 205: \<open>parts\<close> and \<open>is_edit\<close> after the first \<^verbatim>\<open>if\<close>.\<close>

fun edit_block :: "(json \<Rightarrow> string) \<Rightarrow> json \<Rightarrow> json \<Rightarrow> pyexc + (json list \<times> bool)" where
  "edit_block str prompt (JStr s) =
     Inr (if s \<noteq> [] \<and> prefix ''data:'' s
          then (case match_data_uri s of
                  Some (mime, payload) \<Rightarrow>
                    ([inline_data mime payload,
                      text_part (JStr (''Edit this image: '' @ fmt str prompt))], True)
                | None \<Rightarrow> ([], False))
          else ([], False))"
| "edit_block str prompt v = (if truthy v then Inl AttributeError else Inr ([], False))"

text \<open>Lines 192 to 208: with the second \<^verbatim>\<open>if\<close>.\<close>

definition image_request_parts ::
  "(json \<Rightarrow> string) \<Rightarrow> json \<Rightarrow> json \<Rightarrow> pyexc + (json list \<times> bool)" where
  "image_request_parts str prompt image_data =
     bind_exc (edit_block str prompt image_data) (\<lambda>(parts, is_edit).
       Inr (if \<not> is_edit
            then parts @ [text_part (JStr (''Generate an image: '' @ fmt str prompt))]
            else parts, is_edit))"

definition image_url :: "env \<Rightarrow> string" where
  "image_url env = GEMINI_API_URL
     @ ''/gemini-2.0-flash-exp-image-generation:generateContent?key='' @ GOOGLE_API_KEY env"

definition image_payload :: "json list \<Rightarrow> json" where
  "image_payload parts =
     JObj [(''contents'', JArr [JObj [(''parts'', JArr parts)]]),
           (''generationConfig'',
              JObj [(''responseModalities'', JArr [JStr ''TEXT'', JStr ''IMAGE''])])]"

text \<open>\<^verbatim>\<open>'candidates' in result and len(result['candidates']) > 0\<close>.\<close>

definition has_candidates :: "json \<Rightarrow> pyexc + bool" where
  "has_candidates result =
     bind_exc (contains_key ''candidates'' result) (\<lambda>b.
       if b then bind_exc (getitem result ''candidates'') (\<lambda>cands.
                 bind_exc (py_len cands) (\<lambda>n. Inr (0 < n)))
       else Inr False)"

text \<open>Lines 233 to 239: the loop over the parts of the first candidate, on
  \<open>(image_url, text_content)\<close>.\<close>

fun scan_parts :: "(json \<Rightarrow> string) \<Rightarrow> json \<times> json \<Rightarrow> json list \<Rightarrow> pyexc + json \<times> json" where
  "scan_parts str acc [] = Inr acc"
| "scan_parts str acc (part # rest) =
     bind_exc (contains_key ''inlineData'' part) (\<lambda>has_image.
       if has_image then
         bind_exc (getitem part ''inlineData'') (\<lambda>d1.
         bind_exc (getitem d1 ''mimeType'') (\<lambda>mime_type.
         bind_exc (getitem part ''inlineData'') (\<lambda>d2.
         bind_exc (getitem d2 ''data'') (\<lambda>b64_data.
           scan_parts str
             (JStr (''data:'' @ fmt str mime_type @ '';base64,'' @ fmt str b64_data), snd acc)
             rest))))
       else
         bind_exc (contains_key ''text'' part) (\<lambda>has_text.
           if has_text then
             bind_exc (getitem part ''text'') (\<lambda>t. scan_parts str (fst acc, t) rest)
           else scan_parts str acc rest))"

text \<open>Lines 219 to 246: from the result of \<^verbatim>\<open>requests.post\<close> to the response.\<close>

definition image_reply :: "(json \<Rightarrow> string) \<Rightarrow> bool \<Rightarrow> pyexc + upstream_response \<Rightarrow> pyexc + response" where
  "image_reply str is_edit posted =
     bind_exc posted (\<lambda>response.
       if \<not> ok response
       then Inr (Json 500 (JObj [(''error'', JStr ''Image generation failed'')]))
       else
         bind_exc (resp_json response) (\<lambda>result.
         bind_exc (has_candidates result) (\<lambda>b.
           if b then
             bind_exc (getitem result ''candidates'') (\<lambda>cands.
             bind_exc (getitem0 cands) (\<lambda>cand.
             bind_exc (getitem cand ''content'') (\<lambda>content.
             bind_exc (getitem content ''parts'') (\<lambda>parts.
             bind_exc (py_iter parts) (\<lambda>ps.
             bind_exc (scan_parts str
                         (JNull, JStr (if is_edit then ''Here's your edited image!''
                                       else ''Here's your generated image!'')) ps) (\<lambda>acc.
               Inr (Json 200 (JObj [(''imageUrl'', fst acc), (''text'', snd acc)]))))))))
           else Inr (Json 500 (JObj [(''error'', JStr ''No image generated'')])))))"

definition unwrap :: "pyexc + response \<Rightarrow> response" where
  "unwrap r = (case r of Inl e \<Rightarrow> JsonExc e | Inr resp \<Rightarrow> resp)"

definition generate_image_post :: "env \<Rightarrow> request \<Rightarrow> outcome" where
  "generate_image_post env req =
     (if GOOGLE_API_KEY env = [] then not_configured
      else
        case bind_exc (req_json req) (\<lambda>data.
             bind_exc (dict_get data ''prompt'' (JStr [])) (\<lambda>prompt.
             bind_exc (dict_get data ''imageData'' JNull) (\<lambda>image_data.
               if \<not> truthy prompt then Inr None
               else bind_exc (image_request_parts (py_str env) prompt image_data) (\<lambda>built.
                      Inr (Some built))))) of
          Inl e \<Rightarrow> (JsonExc e, [])
        | Inr None \<Rightarrow> (Json 400 (JObj [(''error'', JStr ''Prompt is required'')]), [])
        | Inr (Some (parts, is_edit)) \<Rightarrow>
            (unwrap (image_reply (py_str env) is_edit
                       (requests_post env (image_url env) (image_payload parts))),
             [(image_url env, image_payload parts)]))"

definition generate_image :: "env \<Rightarrow> request \<Rightarrow> real \<Rightarrow> globals \<Rightarrow> outcome \<times> globals" where
  "generate_image env req now g =
     (if verb req = OPTIONS then ((Empty204, []), g)
      else (generate_image_post env req, warm_up now g))"

section \<open>The search endpoints\<close>

definition search_url :: "env \<Rightarrow> string" where
  "search_url env = GEMINI_API_URL @ ''/gemini-2.0-flash:generateContent?key=''
                    @ GOOGLE_API_KEY env"

definition web_search_payload :: "(json \<Rightarrow> string) \<Rightarrow> json \<Rightarrow> json" where
  "web_search_payload str query =
     JObj [(''contents'',
              JArr [JObj [(''parts'',
                 JArr [text_part (JStr (''Search and provide detailed information about: ''
                                        @ fmt str query))])]]),
           (''tools'', JArr [JObj [(''googleSearch'', JObj [])]]),
           (''generationConfig'', JObj [(''temperature'', JFloat (3 / 10)),
                                        (''maxOutputTokens'', JInt 4096)])]"

text \<open>Lines 280 to 291.\<close>

definition web_search_reply :: "pyexc + upstream_response \<Rightarrow> pyexc + response" where
  "web_search_reply posted =
     bind_exc posted (\<lambda>response.
       if \<not> ok response then Inr (Json 500 (JObj [(''error'', JStr ''Search failed'')]))
       else
         bind_exc (resp_json response) (\<lambda>result.
         bind_exc (has_candidates result) (\<lambda>b.
           if b then
             bind_exc (first_text result) (\<lambda>content.
               Inr (Json 200 (JObj [(''content'', content), (''results'', content)])))
           else Inr (Json 500 (JObj [(''error'', JStr ''No search results'')])))))"

definition web_search_post :: "env \<Rightarrow> request \<Rightarrow> outcome" where
  "web_search_post env req =
     (if GOOGLE_API_KEY env = [] then not_configured
      else
        case bind_exc (req_json req) (\<lambda>data. dict_get data ''query'' (JStr [])) of
          Inl e \<Rightarrow> (JsonExc e, [])
        | Inr query \<Rightarrow>
            (unwrap (web_search_reply
                       (requests_post env (search_url env)
                          (web_search_payload (py_str env) query))),
             [(search_url env, web_search_payload (py_str env) query)]))"

definition web_search :: "env \<Rightarrow> request \<Rightarrow> real \<Rightarrow> globals \<Rightarrow> outcome \<times> globals" where
  "web_search env req now g =
     (if verb req = OPTIONS then ((Empty204, []), g)
      else (web_search_post env req, warm_up now g))"

definition map_system_prompt :: string where
  \<open>map_system_prompt = join_lines
     [''You are a location assistant. When given a location query:'',
      ''1. Identify the locations mentioned'',
      ''2. Provide coordinates (latitude/longitude)'',
      ''3. Return a JSON response with this format:'',
      ''{'',
      ''  "locations": ['',
      ''    {"name": "Place Name", "lat": 0.0, "lng": 0.0, "description": "Brief description"}'',
      ''  ],'',
      ''  "center": {"lat": 0.0, "lng": 0.0},'',
      ''  "zoom": 12,'',
      ''  "message": "Description of the locations"'',
      ''}'',
      ''Only return valid JSON.'']\<close>

definition map_search_payload :: "(json \<Rightarrow> string) \<Rightarrow> json \<Rightarrow> json" where
  "map_search_payload str query =
     JObj [(''contents'',
              JArr [JObj [(''parts'',
                 JArr [text_part (JStr (''Find location information for: '' @ fmt str query))])]]),
           (''systemInstruction'', JObj [(''parts'', JArr [text_part (JStr map_system_prompt)])]),
           (''generationConfig'', JObj [(''temperature'', JFloat (2 / 10)),
                                        (''maxOutputTokens'', JInt 2048)])]"

text \<open>Lines 350 to 353: what \<open>content\<close> is when \<^verbatim>\<open>json.loads\<close> is reached. On a value
  that is not a string, the membership test raises TypeError or, after it, \<^verbatim>\<open>split\<close> or
  \<^verbatim>\<open>strip\<close> raises AttributeError; the variable is not assigned then.\<close>

fun fenced :: "json \<Rightarrow> pyexc + string" where
  "fenced (JStr s) =
     (if sublist ''```json'' s then
        bind_exc (index (py_split ''```json'' s) 1) (\<lambda>x. index (py_split ''```'' x) 0)
      else if sublist ''```'' s then
        bind_exc (index (py_split ''```'' s) 1) (\<lambda>x. index (py_split ''```'' x) 0)
      else Inr s)"
| "fenced v = bind_exc (contains_key ''```json'' v) (\<lambda>b. Inl AttributeError)"

text \<open>Lines 349 to 358: the inner \<^verbatim>\<open>try\<close> with its bare \<^verbatim>\<open>except\<close>, which returns the
  variable \<open>content\<close> as it stands then.\<close>

definition map_reply :: "(string \<Rightarrow> json option) \<Rightarrow> json \<Rightarrow> response" where
  "map_reply loads content =
     (case fenced content of
        Inl e \<Rightarrow> Json 200 (JObj [(''content'', content)])
      | Inr inner \<Rightarrow>
          (case loads (strip inner) of
             None \<Rightarrow> Json 200 (JObj [(''content'', JStr inner)])
           | Some map_data \<Rightarrow>
               (case dict_get map_data ''message'' (JStr []) of
                  Inl e \<Rightarrow> Json 200 (JObj [(''content'', JStr inner)])
                | Inr message \<Rightarrow>
                    Json 200 (JObj [(''mapData'', map_data), (''content'', message)]))))"

text \<open>Lines 339 to 360.\<close>

definition map_search_reply ::
  "(string \<Rightarrow> json option) \<Rightarrow> pyexc + upstream_response \<Rightarrow> pyexc + response" where
  "map_search_reply loads posted =
     bind_exc posted (\<lambda>response.
       if \<not> ok response
       then Inr (Json 500 (JObj [(''error'', JStr ''Location search failed'')]))
       else
         bind_exc (resp_json response) (\<lambda>result.
         bind_exc (has_candidates result) (\<lambda>b.
           if b then bind_exc (first_text result) (\<lambda>content. Inr (map_reply loads content))
           else Inr (Json 500 (JObj [(''error'', JStr ''No location results'')])))))"

definition map_search_post :: "env \<Rightarrow> request \<Rightarrow> outcome" where
  "map_search_post env req =
     (if GOOGLE_API_KEY env = [] then not_configured
      else
        case bind_exc (req_json req) (\<lambda>data. dict_get data ''query'' (JStr [])) of
          Inl e \<Rightarrow> (JsonExc e, [])
        | Inr query \<Rightarrow>
            (unwrap (map_search_reply (json_loads env)
                       (requests_post env (search_url env)
                          (map_search_payload (py_str env) query))),
             [(search_url env, map_search_payload (py_str env) query)]))"

definition map_search :: "env \<Rightarrow> request \<Rightarrow> real \<Rightarrow> globals \<Rightarrow> outcome \<times> globals" where
  "map_search env req now g =
     (if verb req = OPTIONS then ((Empty204, []), g)
      else (map_search_post env req, warm_up now g))"

section \<open>Requests of the documented shape\<close>

text \<open>The interface gives a turn as \<^verbatim>\<open>{role, content, imageData?}\<close>, the image a data
  URI string. A value is accepted as an image field when it is a string or false as a
  truth value (null, the empty string); a turn is a dict with \<open>role\<close> and \<open>content\<close>
  whose \<open>imageData\<close>, if any, is such a value.\<close>

fun is_image_field :: "json \<Rightarrow> bool" where
  "is_image_field (JStr s) = True"
| "is_image_field v = (\<not> truthy v)"

fun is_turn :: "json \<Rightarrow> bool" where
  "is_turn (JObj kv) =
     (map_of kv ''role'' \<noteq> None \<and> map_of kv ''content'' \<noteq> None
      \<and> is_image_field (case map_of kv ''imageData'' of None \<Rightarrow> JNull | Some v \<Rightarrow> v))"
| "is_turn v = False"

section \<open>Example surroundings\<close>

text \<open>A provider that cannot be reached, a process started without its key, and one
  started with a key.\<close>

definition refused :: "string \<Rightarrow> json \<Rightarrow> pyexc + upstream_response" where
  "refused url payload = Inl (RequestException ''connection refused'')"

definition unconfigured_env :: env where
  "unconfigured_env = \<lparr>GOOGLE_API_KEY = [], json_loads = (\<lambda>s. None), py_str = (\<lambda>v. []),
                         requests_post = refused\<rparr>"

definition offline_env :: env where
  "offline_env = \<lparr>GOOGLE_API_KEY = ''k'', json_loads = (\<lambda>s. None), py_str = (\<lambda>v. []),
                    requests_post = refused\<rparr>"

text \<open>Message lists of a chat request.\<close>

definition two_turns :: "json list" where
  "two_turns = [JObj [(''role'', JStr ''user''), (''content'', JStr ''hello'')],
                JObj [(''role'', JStr ''assistant''), (''content'', JStr ''hi''),
                      (''imageData'', JStr ''data:image/gif;base64,R0lGOD=='')]]"


text \<open>The chat request of one user turn.\<close>

definition hello_request :: request where
  "hello_request =
     \<lparr>verb = POST,
      req_json = Inr (JObj [(''messages'',
                             JArr [JObj [(''role'', JStr ''user''), (''content'', JStr ''hello'')]]),
                            (''mode'', JStr ''chat'')])\<rparr>"

text \<open>\<^verbatim>\<open>json.loads\<close> on the two documents the examples use; the other strings the
  examples hand to it are not JSON, and it raises on them.\<close>

definition demo_loads :: "string \<Rightarrow> json option" where
  \<open>demo_loads s =
     (if s = ''{"candidates": [{"content": {"parts": [{"text": "Hi"}]}}]}''
      then Some (JObj [(''candidates'',
                  JArr [JObj [(''content'',
                    JObj [(''parts'', JArr [JObj [(''text'', JStr ''Hi'')]])])]])])
      else if s = ''{"message": "Paris", "zoom": 12}''
      then Some (JObj [(''message'', JStr ''Paris''), (''zoom'', JInt 12)])
      else None)\<close>

text \<open>A provider that answers with a status that is not a success.\<close>

definition rejecting_env :: env where
  "rejecting_env =
     \<lparr>GOOGLE_API_KEY = ''k'', json_loads = demo_loads, py_str = (\<lambda>v. []),
      requests_post = (\<lambda>url payload.
        Inr \<lparr>ok = False, resp_json = Inl JSONDecodeError, resp_lines = [],
             resp_abort = None\<rparr>)\<rparr>"

text \<open>A provider that streams one chunk of text, an empty line and a line that is not
  JSON; and one whose connection breaks after the chunk.\<close>

definition hi_lines :: "string option list" where
  \<open>hi_lines = [Some ''data: {"candidates": [{"content": {"parts": [{"text": "Hi"}]}}]}'',
               Some [],
               Some ''data: [not json'']\<close>

definition streaming_env :: env where
  "streaming_env =
     \<lparr>GOOGLE_API_KEY = ''k'', json_loads = demo_loads, py_str = (\<lambda>v. []),
      requests_post = (\<lambda>url payload.
        Inr \<lparr>ok = True, resp_json = Inl JSONDecodeError, resp_lines = hi_lines,
             resp_abort = None\<rparr>)\<rparr>"

definition breaking_env :: env where
  "breaking_env =
     \<lparr>GOOGLE_API_KEY = ''k'', json_loads = demo_loads, py_str = (\<lambda>v. []),
      requests_post = (\<lambda>url payload.
        Inr \<lparr>ok = True, resp_json = Inl JSONDecodeError, resp_lines = take 1 hi_lines,
             resp_abort = Some (RequestException ''connection broken'')\<rparr>)\<rparr>"

text \<open>A provider whose first candidate has the given text.\<close>

definition candidate_text :: "string \<Rightarrow> json" where
  "candidate_text t =
     JObj [(''candidates'',
       JArr [JObj [(''content'', JObj [(''parts'', JArr [JObj [(''text'', JStr t)]])])]])]"

definition answering_env :: "string \<Rightarrow> env" where
  "answering_env t =
     \<lparr>GOOGLE_API_KEY = ''k'', json_loads = demo_loads, py_str = (\<lambda>v. []),
      requests_post = (\<lambda>url payload.
        Inr \<lparr>ok = True, resp_json = Inr (candidate_text t), resp_lines = [],
             resp_abort = None\<rparr>)\<rparr>"

text \<open>Two answers of the provider to a map search: a fenced JSON object after a line
  of prose that has backticks of its own, and a fenced block that is not JSON.\<close>

definition fenced_paris :: string where
  \<open>fenced_paris = ''See `Paris`:'' @ [CHR 0x0A] @ ''```json'' @ [CHR 0x0A]
     @ ''{"message": "Paris", "zoom": 12}'' @ [CHR 0x0A] @ ''```'' @ [CHR 0x0A]\<close>

text \<open>An answer that is a JSON object between a no-break space (U+00A0) and an
  ideographic space (U+3000).\<close>

definition spaced_paris :: string where
  \<open>spaced_paris = [CHR 0xC2, CHR 0xA0] @ ''{"message": "Paris", "zoom": 12}''
     @ [CHR 0xE3, CHR 0x80, CHR 0x80]\<close>

definition fenced_garbage :: string where
  "fenced_garbage = ''```json'' @ [CHR 0x0A] @ ''not json'' @ [CHR 0x0A] @ ''```''"

section \<open>Missing credentials\<close>

text \<open>
  C5. When the API key is empty, each of the four AI-backed handlers answers a POST with
  the fixed response 500 \<^verbatim>\<open>{"error": "GOOGLE_API_KEY not configured"}\<close> and makes no
  upstream call. (The key is tested after the preflight branch: an OPTIONS request is
  answered 204 before it, also without a call.)
\<close>

theorem missing_key_fails_fast:
  assumes "GOOGLE_API_KEY env = []" and "verb req = POST"
  shows "fst (chat env req now g) =
           (Json 500 (JObj [(''error'', JStr ''GOOGLE_API_KEY not configured'')]), [])
       \<and> fst (generate_image env req now g) =
           (Json 500 (JObj [(''error'', JStr ''GOOGLE_API_KEY not configured'')]), [])
       \<and> fst (web_search env req now g) =
           (Json 500 (JObj [(''error'', JStr ''GOOGLE_API_KEY not configured'')]), [])
       \<and> fst (map_search env req now g) =
           (Json 500 (JObj [(''error'', JStr ''GOOGLE_API_KEY not configured'')]), [])"
  using assms
  by (simp add: chat_def chat_post_def generate_image_def generate_image_post_def
      web_search_def web_search_post_def map_search_def map_search_post_def not_configured_def)

theorem missing_key_fails_fast_witness:
  "fst (chat unconfigured_env \<lparr>verb = POST, req_json = Inr (JObj [])\<rparr> 7
          \<lparr>last_request_time = 0\<rparr>) =
     (Json 500 (JObj [(''error'', JStr ''GOOGLE_API_KEY not configured'')]), [])
   \<and> fst (generate_image unconfigured_env \<lparr>verb = POST, req_json = Inr (JObj [])\<rparr> 7
          \<lparr>last_request_time = 0\<rparr>) =
     (Json 500 (JObj [(''error'', JStr ''GOOGLE_API_KEY not configured'')]), [])
   \<and> fst (web_search unconfigured_env \<lparr>verb = POST, req_json = Inr (JObj [])\<rparr> 7
          \<lparr>last_request_time = 0\<rparr>) =
     (Json 500 (JObj [(''error'', JStr ''GOOGLE_API_KEY not configured'')]), [])
   \<and> fst (map_search unconfigured_env \<lparr>verb = POST, req_json = Inr (JObj [])\<rparr> 7
          \<lparr>last_request_time = 0\<rparr>) =
     (Json 500 (JObj [(''error'', JStr ''GOOGLE_API_KEY not configured'')]), [])"
  using missing_key_fails_fast [of unconfigured_env
      "\<lparr>verb = POST, req_json = Inr (JObj [])\<rparr>" 7 "\<lparr>last_request_time = 0\<rparr>"]
  by (simp add: unconfigured_env_def)

section \<open>The end of the chat stream\<close>

lemma relay_line_short:
  "relay_line loads l = [] \<or> (\<exists>c. relay_line loads l = [delta_event c])"
  by (auto simp add: relay_line_def split: option.splits sum.splits)

lemma relay_deltas:
  "\<exists>cs. relay loads abort ls =
          map delta_event cs @
          [if None \<in> set ls then DataExc UnicodeDecodeError
           else case abort of Some e \<Rightarrow> DataExc e | None \<Rightarrow> DataDone]
        \<and> length cs \<le> length ls"
proof (induction ls)
  case Nil
  have "relay loads abort [] =
          map delta_event [] @ [case abort of Some e \<Rightarrow> DataExc e | None \<Rightarrow> DataDone]"
    by (simp split: option.splits)
  then show ?case by auto
next
  case (Cons l ls)
  show ?case
  proof (cases l)
    case None
    then have "relay loads abort (l # ls) = map delta_event [] @ [DataExc UnicodeDecodeError]"
      by simp
    with None show ?thesis by auto
  next
    case (Some s)
    from Cons.IH obtain cs where cs: "relay loads abort ls =
          map delta_event cs @
          [if None \<in> set ls then DataExc UnicodeDecodeError
           else case abort of Some e \<Rightarrow> DataExc e | None \<Rightarrow> DataDone]"
      and len: "length cs \<le> length ls" by blast
    from relay_line_short [of loads s] obtain ds
      where ds: "relay_line loads s = map delta_event ds" and dl: "length ds \<le> 1"
    proof
      assume "relay_line loads s = []"
      then have "relay_line loads s = map delta_event []" by simp
      then show ?thesis using that [of "[]"] by simp
    next
      assume "\<exists>c. relay_line loads s = [delta_event c]"
      then obtain c where "relay_line loads s = map delta_event [c]" by auto
      then show ?thesis using that [of "[c]"] by simp
    qed
    have "relay loads abort (l # ls) =
            map delta_event ((if s \<noteq> [] then ds else []) @ cs) @
            [if None \<in> set (l # ls) then DataExc UnicodeDecodeError
             else case abort of Some e \<Rightarrow> DataExc e | None \<Rightarrow> DataDone]"
      using Some cs ds by simp
    moreover have "length ((if s \<noteq> [] then ds else []) @ cs) \<le> length (l # ls)"
      using len dl by simp
    ultimately show ?thesis by blast
  qed
qed

lemma generate_stream:
  "\<exists>cs. generate env gemini_contents system_prompt =
     (case requests_post env (chat_url env) (chat_payload gemini_contents system_prompt) of
        Inl e \<Rightarrow> [DataExc e]
      | Inr response \<Rightarrow>
          if \<not> ok response then [api_error_event]
          else map delta_event cs
               @ [if None \<in> set (resp_lines response) then DataExc UnicodeDecodeError
                  else case resp_abort response of Some e \<Rightarrow> DataExc e | None \<Rightarrow> DataDone])
   \<and> length cs \<le>
     (case requests_post env (chat_url env) (chat_payload gemini_contents system_prompt) of
        Inl e \<Rightarrow> 0 | Inr response \<Rightarrow> length (resp_lines response))"
proof (cases "requests_post env (chat_url env) (chat_payload gemini_contents system_prompt)")
  case (Inl e)
  then show ?thesis by (simp add: generate_def)
next
  case (Inr response)
  show ?thesis
  proof (cases "ok response")
    case False
    with Inr show ?thesis by (auto simp add: generate_def intro: exI [of _ "[]"])
  next
    case True
    from relay_deltas [of "json_loads env" "resp_abort response" "resp_lines response"]
    obtain cs where "relay (json_loads env) (resp_abort response) (resp_lines response) =
          map delta_event cs @
          [if None \<in> set (resp_lines response) then DataExc UnicodeDecodeError
           else case resp_abort response of Some e \<Rightarrow> DataExc e | None \<Rightarrow> DataDone]"
      and "length cs \<le> length (resp_lines response)"
      by blast
    with Inr True show ?thesis by (auto simp add: generate_def)
  qed
qed

lemma chat_streams:
  assumes "fst (chat env req now g) = (EventStream evs, calls)"
  shows "\<exists>gemini_contents system_prompt.
           evs = generate env gemini_contents system_prompt
         \<and> calls = [(chat_url env, chat_payload gemini_contents system_prompt)]"
proof (cases "chat_inputs req")
  case (Inl e)
  with assms show ?thesis
    by (simp add: chat_def chat_post_def not_configured_def split: if_splits)
next
  case (Inr built)
  obtain gc sp where "built = (gc, sp)" by (cases built)
  with Inr assms show ?thesis
    by (auto simp add: chat_def chat_post_def not_configured_def split: if_splits)
qed

text \<open>
  C1, as amended. Whenever chat answers with a stream, it has made one upstream call, and
  the stream is determined by the provider's answer to that call. When the post raises,
  the stream is the single error event of the exception. When the status is not a
  success, the stream is the single error event \<^verbatim>\<open>{"error": "AI API error"}\<close>. Otherwise
  the stream is zero or more delta-content events
  \<^verbatim>\<open>{"choices": [{"delta": {"content": c}}]}\<close>, at most one for each upstream line,
  followed by exactly one terminal event: the error event of the exception when a line
  does not decode or the iteration raises, and the sentinel \<^verbatim>\<open>data: [DONE]\<close> when the
  iteration ends without one. No sentinel is emitted on the error paths.
\<close>

theorem stream_ends_with_sentinel_or_error:
  assumes "fst (chat env req now g) = (EventStream evs, calls)"
  shows "\<exists>url payload cs.
           calls = [(url, payload)]
         \<and> evs =
             (case requests_post env url payload of
                Inl e \<Rightarrow> [DataExc e]
              | Inr response \<Rightarrow>
                  if \<not> ok response
                  then [DataJson (JObj [(''error'', JStr ''AI API error'')])]
                  else map (\<lambda>c. DataJson (JObj [(''choices'',
                                    JArr [JObj [(''delta'', JObj [(''content'', c)])]])])) cs
                       @ [if None \<in> set (resp_lines response) then DataExc UnicodeDecodeError
                          else case resp_abort response of
                                 Some e \<Rightarrow> DataExc e | None \<Rightarrow> DataDone])
         \<and> length cs \<le>
             (case requests_post env url payload of
                Inl e \<Rightarrow> 0 | Inr response \<Rightarrow> length (resp_lines response))"
proof -
  from chat_streams [OF assms] obtain gc sp where evs: "evs = generate env gc sp"
    and calls: "calls = [(chat_url env, chat_payload gc sp)]" by blast
  from generate_stream [of env gc sp] obtain cs where
    g: "generate env gc sp =
     (case requests_post env (chat_url env) (chat_payload gc sp) of
        Inl e \<Rightarrow> [DataExc e]
      | Inr response \<Rightarrow>
          if \<not> ok response then [api_error_event]
          else map delta_event cs
               @ [if None \<in> set (resp_lines response) then DataExc UnicodeDecodeError
                  else case resp_abort response of Some e \<Rightarrow> DataExc e | None \<Rightarrow> DataDone])"
    and l: "length cs \<le>
     (case requests_post env (chat_url env) (chat_payload gc sp) of
        Inl e \<Rightarrow> 0 | Inr response \<Rightarrow> length (resp_lines response))"
    by blast
  have d: "delta_event = (\<lambda>c. DataJson (JObj [(''choices'',
                                    JArr [JObj [(''delta'', JObj [(''content'', c)])]])]))"
    by (rule ext) (simp add: delta_event_def)
  show ?thesis
  proof (intro exI [of _ "chat_url env"] exI [of _ "chat_payload gc sp"] exI [of _ cs] conjI)
    show "calls = [(chat_url env, chat_payload gc sp)]" by (rule calls)
    show "evs =
             (case requests_post env (chat_url env) (chat_payload gc sp) of
                Inl e \<Rightarrow> [DataExc e]
              | Inr response \<Rightarrow>
                  if \<not> ok response
                  then [DataJson (JObj [(''error'', JStr ''AI API error'')])]
                  else map (\<lambda>c. DataJson (JObj [(''choices'',
                                    JArr [JObj [(''delta'', JObj [(''content'', c)])]])])) cs
                       @ [if None \<in> set (resp_lines response) then DataExc UnicodeDecodeError
                          else case resp_abort response of
                                 Some e \<Rightarrow> DataExc e | None \<Rightarrow> DataDone])"
      by (simp only: evs g d api_error_event_def)
    show "length cs \<le>
             (case requests_post env (chat_url env) (chat_payload gc sp) of
                Inl e \<Rightarrow> 0 | Inr response \<Rightarrow> length (resp_lines response))"
      by (rule l)
  qed
qed

theorem stream_ends_with_sentinel_or_error_witness:
  "fst (fst (chat streaming_env hello_request 7 \<lparr>last_request_time = 0\<rparr>)) =
     EventStream [DataJson (JObj [(''choices'',
                     JArr [JObj [(''delta'', JObj [(''content'', JStr ''Hi'')])]])]),
                  DataDone]
   \<and> fst (fst (chat breaking_env hello_request 7 \<lparr>last_request_time = 0\<rparr>)) =
     EventStream [DataJson (JObj [(''choices'',
                     JArr [JObj [(''delta'', JObj [(''content'', JStr ''Hi'')])]])]),
                  DataExc (RequestException ''connection broken'')]"
proof -
  let ?g = "\<lparr>last_request_time = 0\<rparr>"
  let ?hi = "DataJson (JObj [(''choices'',
                     JArr [JObj [(''delta'', JObj [(''content'', JStr ''Hi'')])]])])"
  have l: "relay_line demo_loads (the (hd hi_lines)) = [?hi]"
    by (simp add: hi_lines_def relay_line_def demo_loads_def chunk_text_def first_text_def
        bind_exc_def delta_event_def)
  have n: "relay_line demo_loads ''data: [not json'' = []"
    by (simp add: relay_line_def demo_loads_def)
  have s: "generate streaming_env cs sp = [?hi, DataDone]" for cs sp
    using l n by (simp add: generate_def streaming_env_def hi_lines_def)
  have b: "generate breaking_env cs sp = [?hi, DataExc (RequestException ''connection broken'')]"
    for cs sp
    using l by (simp add: generate_def breaking_env_def hi_lines_def)
  have i: "\<exists>built. chat_inputs hello_request = Inr built"
    by (simp add: hello_request_def chat_inputs_def build_turn_def msg_image_def bind_exc_def)
  then obtain built where bi: "chat_inputs hello_request = Inr built" ..
  obtain gc sp where bs: "built = (gc, sp)" by (cases built)
  have k: "GOOGLE_API_KEY streaming_env \<noteq> []" "GOOGLE_API_KEY breaking_env \<noteq> []"
    by (simp_all add: streaming_env_def breaking_env_def)
  have v: "verb hello_request = POST" by (simp add: hello_request_def)
  have x: "fst (fst (chat streaming_env hello_request 7 ?g)) = EventStream [?hi, DataDone]"
    using bi bs k v s by (simp add: chat_def chat_post_def)
  have y: "fst (fst (chat breaking_env hello_request 7 ?g)) =
             EventStream [?hi, DataExc (RequestException ''connection broken'')]"
    using bi bs k v b by (simp add: chat_def chat_post_def)
  from x y
    stream_ends_with_sentinel_or_error [of streaming_env hello_request 7 ?g
      "[?hi, DataDone]" "snd (fst (chat streaming_env hello_request 7 ?g))"]
    stream_ends_with_sentinel_or_error [of breaking_env hello_request 7 ?g
      "[?hi, DataExc (RequestException ''connection broken'')]"
      "snd (fst (chat breaking_env hello_request 7 ?g))"]
  show ?thesis by simp
qed

text \<open>
  C1, as stated, fails: when the provider answers a chat request with a status that is
  not a success, the stream is the single error event, with no sentinel.
\<close>

theorem rejected_stream_has_no_sentinel:
  "fst (fst (chat rejecting_env hello_request 7 \<lparr>last_request_time = 0\<rparr>)) =
     EventStream [DataJson (JObj [(''error'', JStr ''AI API error'')])]
   \<and> DataDone \<notin> set [DataJson (JObj [(''error'', JStr ''AI API error'')])]"
proof -
  have i: "\<exists>built. chat_inputs hello_request = Inr built"
    by (simp add: hello_request_def chat_inputs_def build_turn_def msg_image_def bind_exc_def)
  then obtain built where bi: "chat_inputs hello_request = Inr built" ..
  obtain gc sp where bs: "built = (gc, sp)" by (cases built)
  have g: "generate rejecting_env cs sp = [DataJson (JObj [(''error'', JStr ''AI API error'')])]"
    for cs sp
    by (simp add: generate_def rejecting_env_def api_error_event_def)
  have k: "GOOGLE_API_KEY rejecting_env \<noteq> []" by (simp add: rejecting_env_def)
  have v: "verb hello_request = POST" by (simp add: hello_request_def)
  from bi bs g k v show ?thesis by (simp add: chat_def chat_post_def)
qed

section \<open>Extraction of an image from a data URI\<close>

lemma match_data_uri_wellformed:
  assumes "mime \<noteq> []" and "CHR '';'' \<notin> set mime"
    and "payload \<noteq> []" and "newline \<notin> set payload"
  shows "match_data_uri (''data:'' @ mime @ '';base64,'' @ payload) = Some (mime, payload)"
proof -
  have tw: "\<And>rest. takeWhile (\<lambda>c. c \<noteq> CHR '';'') (mime @ CHR '';'' # rest) = mime"
    using assms(2) by (subst takeWhile_append2) auto
  have dw: "\<And>rest. dropWhile (\<lambda>c. c \<noteq> CHR '';'') (mime @ CHR '';'' # rest) = CHR '';'' # rest"
    using assms(2) by (subst dropWhile_append2) auto
  have lp: "last payload \<noteq> newline"
    using assms(3,4) last_in_set by metis
  show ?thesis
    using assms(1,3,4) lp by (simp add: match_data_uri_def tw dw Let_def)
qed

lemma match_data_uri_form:
  assumes "match_data_uri s = Some (mime, payload)"
  shows "\<exists>rest. s = ''data:'' @ mime @ '';base64,'' @ rest \<and> CHR '';'' \<notin> set mime
               \<and> mime \<noteq> [] \<and> payload \<noteq> [] \<and> newline \<notin> set payload
               \<and> (rest = payload \<or> rest = payload @ [newline])"
proof -
  let ?P = "\<lambda>c. c \<noteq> CHR '';''"
  from assms have p1: "prefix ''data:'' s"
    by (auto simp add: match_data_uri_def split: if_splits)
  then obtain r where s: "s = ''data:'' @ r" by (auto simp add: prefix_def)
  from assms s have m: "mime = takeWhile ?P r" and ne: "mime \<noteq> []"
    and p2: "prefix '';base64,'' (dropWhile ?P r)"
    by (auto simp add: match_data_uri_def Let_def split: if_splits)
  from p2 obtain rest where d: "dropWhile ?P r = '';base64,'' @ rest"
    by (auto simp add: prefix_def)
  have r: "r = mime @ '';base64,'' @ rest"
    using takeWhile_dropWhile_id [of ?P r] m d by simp
  have nosemi: "CHR '';'' \<notin> set mime"
    using m by (auto dest: set_takeWhileD)
  from assms s d have pl: "payload = (if rest \<noteq> [] \<and> last rest = newline then butlast rest else rest)"
    and pne: "payload \<noteq> []" and pnl: "newline \<notin> set payload"
    by (auto simp add: match_data_uri_def Let_def split: if_splits)
  have "rest = payload \<or> rest = payload @ [newline]"
  proof (cases "rest \<noteq> [] \<and> last rest = newline")
    case True
    then have "rest = butlast rest @ [newline]" using append_butlast_last_id [of rest] by simp
    with pl True show ?thesis by simp
  next
    case False
    with pl show ?thesis by auto
  qed
  with s r nosemi ne pne pnl show ?thesis by auto
qed

lemma image_parts_str:
  "image_parts (JStr s) =
     Inr (case match_data_uri s of Some (mime, payload) \<Rightarrow> [inline_data mime payload] | None \<Rightarrow> [])"
  by (auto simp add: match_data_uri_def split: option.splits)

lemma edit_block_str:
  "edit_block str prompt (JStr s) =
     Inr (case match_data_uri s of
            Some (mime, payload) \<Rightarrow>
              ([inline_data mime payload,
                text_part (JStr (''Edit this image: '' @ fmt str prompt))], True)
          | None \<Rightarrow> ([], False))"
  by (auto simp add: match_data_uri_def split: option.splits)

text \<open>
  C2, as amended. For every string \<^verbatim>\<open>data:<mime>;base64,<payload>\<close> whose mime part is not
  empty and has no semicolon and whose payload is not empty and has no line feed, the
  extraction of both endpoints recovers the mime part and the payload exactly and attaches
  the inline image block \<^verbatim>\<open>{"inlineData": {"mimeType": <mime>, "data": <payload>}}\<close> (in
  generate-image, followed by the edit instruction). For every string that is not
  \<^verbatim>\<open>data:<mime>;base64,<payload>\<close> for any mime part without a semicolon, no image block
  is attached and nothing is raised.
\<close>

theorem data_uri_extraction:
  "(mime \<noteq> [] \<and> CHR '';'' \<notin> set mime \<and> payload \<noteq> [] \<and> CHR 0x0A \<notin> set payload \<longrightarrow>
      image_parts (JStr (''data:'' @ mime @ '';base64,'' @ payload)) =
        Inr [JObj [(''inlineData'', JObj [(''mimeType'', JStr mime), (''data'', JStr payload)])]]
    \<and> edit_block str (JStr p) (JStr (''data:'' @ mime @ '';base64,'' @ payload)) =
        Inr ([JObj [(''inlineData'', JObj [(''mimeType'', JStr mime), (''data'', JStr payload)])],
              JObj [(''text'', JStr (''Edit this image: '' @ p))]], True))
   \<and> ((\<nexists>m d. CHR '';'' \<notin> set m \<and> s = ''data:'' @ m @ '';base64,'' @ d) \<longrightarrow>
      image_parts (JStr s) = Inr [] \<and> edit_block str (JStr p) (JStr s) = Inr ([], False))"
proof (intro conjI impI)
  assume a: "mime \<noteq> [] \<and> CHR '';'' \<notin> set mime \<and> payload \<noteq> [] \<and> CHR 0x0A \<notin> set payload"
  then have mt: "match_data_uri (''data:'' @ mime @ '';base64,'' @ payload) = Some (mime, payload)"
    using match_data_uri_wellformed [of mime payload] by (simp add: newline_def)
  show "image_parts (JStr (''data:'' @ mime @ '';base64,'' @ payload)) =
        Inr [JObj [(''inlineData'', JObj [(''mimeType'', JStr mime), (''data'', JStr payload)])]]"
    by (simp only: image_parts_str mt) (simp add: inline_data_def)
  show "edit_block str (JStr p) (JStr (''data:'' @ mime @ '';base64,'' @ payload)) =
        Inr ([JObj [(''inlineData'', JObj [(''mimeType'', JStr mime), (''data'', JStr payload)])],
              JObj [(''text'', JStr (''Edit this image: '' @ p))]], True)"
    by (simp only: edit_block_str mt) (simp add: inline_data_def text_part_def)
next
  assume n: "\<nexists>m d. CHR '';'' \<notin> set m \<and> s = ''data:'' @ m @ '';base64,'' @ d"
  have "match_data_uri s = None"
  proof (cases "match_data_uri s")
    case None
    then show ?thesis .
  next
    case (Some md)
    obtain m d where "md = (m, d)" by (cases md)
    with Some match_data_uri_form [of s m d] n show ?thesis by blast
  qed
  then show "image_parts (JStr s) = Inr []" and "edit_block str (JStr p) (JStr s) = Inr ([], False)"
    by (simp_all only: image_parts_str edit_block_str) simp_all
qed

theorem data_uri_extraction_witness:
  "image_parts (JStr ''data:image/png;base64,iVBORw0KGgo='') =
     Inr [JObj [(''inlineData'',
            JObj [(''mimeType'', JStr ''image/png''), (''data'', JStr ''iVBORw0KGgo='')])]]
   \<and> edit_block (\<lambda>v. []) (JStr ''a hat'') (JStr ''data:image/png;base64,iVBORw0KGgo='') =
     Inr ([JObj [(''inlineData'',
             JObj [(''mimeType'', JStr ''image/png''), (''data'', JStr ''iVBORw0KGgo='')])],
           JObj [(''text'', JStr ''Edit this image: a hat'')]], True)
   \<and> image_parts (JStr ''https://example.org/cat.png'') = Inr []
   \<and> edit_block (\<lambda>v. []) (JStr ''a hat'') (JStr ''https://example.org/cat.png'') = Inr ([], False)"
  using data_uri_extraction [of "''image/png''" "''iVBORw0KGgo=''" "\<lambda>v. []" "''a hat''"
      "''https://example.org/cat.png''"]
  by simp

text \<open>
  C2, as stated, fails: a payload with a line feed inside is of the form the claim
  names, and no image block is attached for it, since the dot of the pattern does not
  take a line feed.
\<close>

theorem data_uri_with_line_feed_is_skipped:
  "image_parts (JStr (''data:'' @ ''image/png'' @ '';base64,'' @ ''iVBO'' @ [CHR 0x0A] @ ''Rw0K''))
     = Inr []
   \<and> image_parts (JStr (''data:'' @ ''image/png'' @ '';base64,'' @ ''iVBO'' @ [CHR 0x0A] @ ''Rw0K''))
     \<noteq> Inr [JObj [(''inlineData'',
              JObj [(''mimeType'', JStr ''image/png''),
                    (''data'', JStr (''iVBO'' @ [CHR 0x0A] @ ''Rw0K''))])]]"
  by (simp add: match_data_uri_def newline_def Let_def)

section \<open>The fenced answer of a map search\<close>

lemma cut_at_missing: "\<not> sublist sep s \<Longrightarrow> cut_at sep s = None"
  by (induction s) (auto simp add: sublist_Cons_right)

lemma prefix_of_longer:
  assumes "prefix xs (ys @ zs)" and "length xs \<le> length ys"
  shows "prefix xs ys"
  using assms by (auto simp add: prefix_append)

lemma cut_at_leftmost:
  assumes "sep \<noteq> []"
  shows "\<not> sublist sep (a @ butlast sep) \<Longrightarrow> cut_at sep (a @ sep @ b) = Some (a, b)"
proof (induction a)
  case Nil
  from assms obtain c cs where "sep = c # cs" by (cases sep) auto
  then show ?case by simp
next
  case (Cons c a)
  have np: "\<not> prefix sep ((c # a) @ sep @ b)"
  proof
    assume p: "prefix sep ((c # a) @ sep @ b)"
    have e: "(c # a) @ sep @ b = ((c # a) @ butlast sep) @ (last sep # b)"
      using assms by simp
    have l: "length sep \<le> length ((c # a) @ butlast sep)" by simp
    have p': "prefix sep (((c # a) @ butlast sep) @ (last sep # b))"
      using p by (simp only: e [symmetric])
    from p' l have "prefix sep ((c # a) @ butlast sep)"
      by (rule prefix_of_longer)
    then have "sublist sep ((c # a) @ butlast sep)" by (rule prefix_imp_sublist)
    with Cons.prems show False by simp
  qed
  from Cons.prems have "\<not> sublist sep (a @ butlast sep)"
    by (simp add: sublist_Cons_right)
  with Cons.IH have "cut_at sep (a @ sep @ b) = Some (a, b)" .
  with np show ?case by simp
qed

lemma first_piece:
  "index (py_split sep s) 0 =
     Inr (if sep = [] then s else case cut_at sep s of None \<Rightarrow> s | Some (a, r) \<Rightarrow> a)"
  by (subst py_split.simps) (simp add: index_def split: option.splits)

lemma second_piece:
  assumes "sep \<noteq> []" and "cut_at sep s = Some (a, r)"
  shows "index (py_split sep s) 1 =
           Inr (case cut_at sep r of None \<Rightarrow> r | Some (a', r') \<Rightarrow> a')"
proof -
  have "py_split sep s = a # py_split sep r"
    using assms by (subst py_split.simps) simp
  then have "index (py_split sep s) 1 = index (py_split sep r) 0"
    by (simp add: index_def)
  with assms(1) show ?thesis by (simp only: first_piece) simp
qed

text \<open>The piece of a text before the leftmost separator, or all of it when it has
  none.\<close>

lemma piece_before:
  assumes "sep \<noteq> []"
    and "s = a @ sep @ b \<and> \<not> sublist sep (a @ butlast sep) \<or> s = a \<and> \<not> sublist sep s"
  shows "(case cut_at sep s of None \<Rightarrow> s | Some (a', r) \<Rightarrow> a') = a"
  using assms(2)
proof
  assume "s = a @ sep @ b \<and> \<not> sublist sep (a @ butlast sep)"
  with cut_at_leftmost [OF assms(1), of a b] show ?thesis by simp
next
  assume h: "s = a \<and> \<not> sublist sep s"
  then have "\<not> sublist sep s" by (rule conjunct2)
  then have "cut_at sep s = None" by (rule cut_at_missing)
  with h show ?thesis by simp
qed

lemma fenced_tagged:
  assumes "raw = pre @ ''```json'' @ rest" and "\<not> sublist ''```json'' (pre @ ''```jso'')"
    and "rest = x @ ''```json'' @ rest' \<and> \<not> sublist ''```json'' (x @ ''```jso'')
         \<or> rest = x \<and> \<not> sublist ''```json'' rest"
    and "x = inner @ ''```'' @ tail \<and> \<not> sublist ''```'' (inner @ ''``'')
         \<or> x = inner \<and> \<not> sublist ''```'' x"
  shows "fenced (JStr raw) = Inr inner"
proof -
  have sub: "sublist ''```json'' raw"
    unfolding assms(1) by (rule sublist_appendI)
  have c1: "cut_at ''```json'' raw = Some (pre, rest)"
    unfolding assms(1) using cut_at_leftmost [of "''```json''" pre rest] assms(2) by simp
  have px: "(case cut_at ''```json'' rest of None \<Rightarrow> rest | Some (a', r) \<Rightarrow> a') = x"
    using piece_before [of "''```json''" rest x rest'] assms(3) by simp
  have x: "index (py_split ''```json'' raw) 1 = Inr x"
    using second_piece [of "''```json''" raw pre rest] c1 px by simp
  have pi: "(case cut_at ''```'' x of None \<Rightarrow> x | Some (a', r) \<Rightarrow> a') = inner"
    using piece_before [of "''```''" x inner tail] assms(4) by simp
  have i: "index (py_split ''```'' x) 0 = Inr inner"
    using first_piece [of "''```''" x] pi by simp
  from sub x i show ?thesis by (simp add: bind_exc_def)
qed

lemma fenced_untagged:
  assumes "\<not> sublist ''```json'' raw"
    and "raw = pre @ ''```'' @ rest" and "\<not> sublist ''```'' (pre @ ''``'')"
    and "rest = inner @ ''```'' @ tail \<and> \<not> sublist ''```'' (inner @ ''``'')
         \<or> rest = inner \<and> \<not> sublist ''```'' rest"
  shows "fenced (JStr raw) = Inr inner"
proof -
  have sub: "sublist ''```'' raw"
    unfolding assms(2) by (rule sublist_appendI)
  have c1: "cut_at ''```'' raw = Some (pre, rest)"
    unfolding assms(2) using cut_at_leftmost [of "''```''" pre rest] assms(3) by simp
  have pi: "(case cut_at ''```'' rest of None \<Rightarrow> rest | Some (a', r) \<Rightarrow> a') = inner"
    using piece_before [of "''```''" rest inner tail] assms(4) by simp
  have x: "index (py_split ''```'' raw) 1 = Inr inner"
    using second_piece [of "''```''" raw pre rest] c1 pi by simp
  have ni: "\<not> sublist ''```'' inner"
  proof
    assume s: "sublist ''```'' inner"
    from assms(4) show False
    proof
      assume "rest = inner @ ''```'' @ tail \<and> \<not> sublist ''```'' (inner @ ''``'')"
      moreover from s have "sublist ''```'' (inner @ ''``'')"
        by (simp add: sublist_append)
      ultimately show False by blast
    next
      assume "rest = inner \<and> \<not> sublist ''```'' rest"
      with s show False by blast
    qed
  qed
  have i: "index (py_split ''```'' inner) 0 = Inr inner"
    using first_piece [of "''```''" inner] cut_at_missing [OF ni] by simp
  from assms(1) sub x i show ?thesis by (simp add: bind_exc_def)
qed

lemma fenced_unfenced:
  assumes "\<not> sublist ''```'' raw"
  shows "fenced (JStr raw) = Inr raw"
proof -
  have "\<not> sublist ''```json'' raw"
  proof
    assume "sublist ''```json'' raw"
    then obtain ps ss where "raw = ps @ ''```json'' @ ss" by (auto simp add: sublist_def)
    then have "raw = ps @ ''```'' @ (''json'' @ ss)" by simp
    then have "sublist ''```'' raw" by (simp only: sublist_appendI)
    with assms show False by simp
  qed
  with assms show ?thesis by simp
qed

lemma first_candidate:
  assumes "map_of res ''candidates'' = Some (JArr (JObj cand # others))"
    and "map_of cand ''content'' = Some (JObj cont)"
    and "map_of cont ''parts'' = Some (JArr (JObj part # parts))"
    and "map_of part ''text'' = Some t"
  shows "has_candidates (JObj res) = Inr True" and "first_text (JObj res) = Inr t"
proof -
  from assms(1) have "(''candidates'', JArr (JObj cand # others)) \<in> set res"
    by (rule map_of_SomeD)
  then have "''candidates'' \<in> fst ` set res" by force
  with assms(1) show "has_candidates (JObj res) = Inr True"
    by (simp add: has_candidates_def bind_exc_def)
  from assms show "first_text (JObj res) = Inr t"
    by (simp add: first_text_def bind_exc_def)
qed

lemma map_search_answer:
  assumes "GOOGLE_API_KEY env \<noteq> []" and "verb req = POST"
    and "req_json req = Inr (JObj kv)"
    and "snd (fst (map_search env req now g)) = [(url, payload)]"
    and "requests_post env url payload = Inr response"
    and "ok response" and "resp_json response = Inr result"
    and "has_candidates result = Inr True" and "first_text result = Inr content"
  shows "fst (fst (map_search env req now g)) = map_reply (json_loads env) content"
proof -
  from assms(1-4) have "url = search_url env"
    and "payload = map_search_payload (py_str env)
                     (case map_of kv ''query'' of None \<Rightarrow> JStr [] | Some q \<Rightarrow> q)"
    by (simp_all add: map_search_def map_search_post_def bind_exc_def)
  with assms show ?thesis
    by (simp add: map_search_def map_search_post_def map_search_reply_def bind_exc_def
        unwrap_def)
qed

text \<open>
  C3, as amended. Let the provider answer the call of a map search with a success status
  and a first candidate whose text is a string. The inner text is taken from it as
  follows. When the text has a json-tagged fence, take what follows the leftmost one, up
  to the next json-tagged fence if there is one, and of that the part before its leftmost
  fence, or all of it when it has no fence. When the text has a fence but none that is
  json-tagged, take what stands between the leftmost fence and the next one, or the end
  of the text. When the text has no fence, take the text. When the inner text, stripped,
  is a JSON object, the endpoint returns it as \<open>mapData\<close>, with its \<open>message\<close> (or the
  empty string) as \<open>content\<close>. When it is not valid JSON, or not an object, the endpoint
  returns \<^verbatim>\<open>{content: <inner text>}\<close>, the inner text not stripped, without raising: this
  is the candidate's text itself only when the text has no fence.
\<close>

theorem map_search_parses_the_fenced_text:
  assumes "GOOGLE_API_KEY env \<noteq> []" and "verb req = POST"
    and "req_json req = Inr (JObj kv)"
    and "snd (fst (map_search env req now g)) = [(url, payload)]"
    and "requests_post env url payload = Inr response"
    and "ok response" and "resp_json response = Inr (JObj res)"
    and "map_of res ''candidates'' = Some (JArr (JObj cand # others))"
    and "map_of cand ''content'' = Some (JObj cont)"
    and "map_of cont ''parts'' = Some (JArr (JObj part # parts))"
    and "map_of part ''text'' = Some (JStr raw)"
    and "raw = pre @ ''```json'' @ rest \<and> \<not> sublist ''```json'' (pre @ ''```jso'')
           \<and> (rest = x @ ''```json'' @ rest' \<and> \<not> sublist ''```json'' (x @ ''```jso'')
                \<or> rest = x \<and> \<not> sublist ''```json'' rest)
           \<and> (x = inner @ ''```'' @ tail \<and> \<not> sublist ''```'' (inner @ ''``'')
                \<or> x = inner \<and> \<not> sublist ''```'' x)
         \<or> \<not> sublist ''```json'' raw
           \<and> raw = pre @ ''```'' @ rest \<and> \<not> sublist ''```'' (pre @ ''``'')
           \<and> (rest = inner @ ''```'' @ tail \<and> \<not> sublist ''```'' (inner @ ''``'')
                \<or> rest = inner \<and> \<not> sublist ''```'' rest)
         \<or> \<not> sublist ''```'' raw \<and> inner = raw"
  shows "(json_loads env (strip inner) = Some (JObj obj) \<longrightarrow>
            fst (fst (map_search env req now g)) =
              Json 200 (JObj [(''mapData'', JObj obj),
                              (''content'', case map_of obj ''message'' of
                                              None \<Rightarrow> JStr [] | Some m \<Rightarrow> m)]))
       \<and> (json_loads env (strip inner) = None
            \<or> json_loads env (strip inner) = Some v \<and> (\<nexists>fields. v = JObj fields) \<longrightarrow>
            fst (fst (map_search env req now g)) = Json 200 (JObj [(''content'', JStr inner)]))"
proof -
  have f: "fenced (JStr raw) = Inr inner"
    using assms(12) fenced_tagged [of raw pre rest x rest' inner tail]
      fenced_untagged [of raw pre rest inner tail] fenced_unfenced [of raw]
    by blast
  have r: "fst (fst (map_search env req now g)) = map_reply (json_loads env) (JStr raw)"
    using assms(1-7) first_candidate [OF assms(8-11)] by (rule map_search_answer)
  have nd: "dict_get v ''message'' (JStr []) = Inl AttributeError" if "\<nexists>fields. v = JObj fields"
    using that by (cases v) simp_all
  show ?thesis
    by (simp only: r map_reply_def f) (auto simp add: nd)
qed

theorem map_search_parses_the_fenced_text_witness:
  "fst (fst (map_search (answering_env fenced_paris)
               \<lparr>verb = POST, req_json = Inr (JObj [(''query'', JStr ''Paris'')])\<rparr>
               7 \<lparr>last_request_time = 0\<rparr>)) =
     Json 200 (JObj [(''mapData'', JObj [(''message'', JStr ''Paris''), (''zoom'', JInt 12)]),
                     (''content'', JStr ''Paris'')])
   \<and> fst (fst (map_search (answering_env ''Paris is in France.'')
               \<lparr>verb = POST, req_json = Inr (JObj [(''query'', JStr ''Paris'')])\<rparr>
               7 \<lparr>last_request_time = 0\<rparr>)) =
     Json 200 (JObj [(''content'', JStr ''Paris is in France.'')])
   \<and> fst (fst (map_search (answering_env spaced_paris)
               \<lparr>verb = POST, req_json = Inr (JObj [(''query'', JStr ''Paris'')])\<rparr>
               7 \<lparr>last_request_time = 0\<rparr>)) =
     Json 200 (JObj [(''mapData'', JObj [(''message'', JStr ''Paris''), (''zoom'', JInt 12)]),
                     (''content'', JStr ''Paris'')])"
proof -
  let ?req = "\<lparr>verb = POST, req_json = Inr (JObj [(''query'', JStr ''Paris'')])\<rparr>"
  let ?g = "\<lparr>last_request_time = 0\<rparr>"
  let ?payload = "map_search_payload (\<lambda>v. []) (JStr ''Paris'')"
  have call: "snd (fst (map_search (answering_env t) ?req 7 ?g)) =
                [(search_url (answering_env t), ?payload)]" for t
    by (simp add: map_search_def map_search_post_def bind_exc_def answering_env_def)
  have l1: \<open>demo_loads (strip ([CHR 0x0A] @ ''{"message": "Paris", "zoom": 12}'' @ [CHR 0x0A])) =
             Some (JObj [(''message'', JStr ''Paris''), (''zoom'', JInt 12)])\<close>
    by (simp add: strip_def py_space_def utf8_width_def demo_loads_def)
  have l2: "demo_loads (strip ''Paris is in France.'') = None"
    by (simp add: strip_def py_space_def utf8_width_def demo_loads_def)
  have a: "fst (fst (map_search (answering_env fenced_paris) ?req 7 ?g)) =
     Json 200 (JObj [(''mapData'', JObj [(''message'', JStr ''Paris''), (''zoom'', JInt 12)]),
                     (''content'', JStr ''Paris'')])"
    using map_search_parses_the_fenced_text [of "answering_env fenced_paris" ?req
        "[(''query'', JStr ''Paris'')]" 7 ?g
        "search_url (answering_env fenced_paris)" ?payload
        "\<lparr>ok = True, resp_json = Inr (candidate_text fenced_paris), resp_lines = [],
          resp_abort = None\<rparr>"
        "[(''candidates'',
           JArr [JObj [(''content'', JObj [(''parts'', JArr [JObj [(''text'', JStr fenced_paris)]])])]])]"
        "[(''content'', JObj [(''parts'', JArr [JObj [(''text'', JStr fenced_paris)]])])]" "[]"
        "[(''parts'', JArr [JObj [(''text'', JStr fenced_paris)]])]"
        "[(''text'', JStr fenced_paris)]" "[]" fenced_paris
        "''See `Paris`:'' @ [CHR 0x0A]"
        \<open>[CHR 0x0A] @ ''{"message": "Paris", "zoom": 12}'' @ [CHR 0x0A] @ ''```'' @ [CHR 0x0A]\<close>
        \<open>[CHR 0x0A] @ ''{"message": "Paris", "zoom": 12}'' @ [CHR 0x0A] @ ''```'' @ [CHR 0x0A]\<close>
        "[]"
        \<open>[CHR 0x0A] @ ''{"message": "Paris", "zoom": 12}'' @ [CHR 0x0A]\<close>
        "[CHR 0x0A]"
        "[(''message'', JStr ''Paris''), (''zoom'', JInt 12)]" JNull]
      call [of fenced_paris] l1
    by (simp add: answering_env_def candidate_text_def fenced_paris_def sublist_Cons_right)
  have b: "fst (fst (map_search (answering_env ''Paris is in France.'') ?req 7 ?g)) =
     Json 200 (JObj [(''content'', JStr ''Paris is in France.'')])"
    using map_search_parses_the_fenced_text [of "answering_env ''Paris is in France.''" ?req
        "[(''query'', JStr ''Paris'')]" 7 ?g
        "search_url (answering_env ''Paris is in France.'')" ?payload
        "\<lparr>ok = True, resp_json = Inr (candidate_text ''Paris is in France.''), resp_lines = [],
          resp_abort = None\<rparr>"
        "[(''candidates'',
           JArr [JObj [(''content'',
             JObj [(''parts'', JArr [JObj [(''text'', JStr ''Paris is in France.'')]])])]])]"
        "[(''content'', JObj [(''parts'', JArr [JObj [(''text'', JStr ''Paris is in France.'')]])])]"
        "[]"
        "[(''parts'', JArr [JObj [(''text'', JStr ''Paris is in France.'')]])]"
        "[(''text'', JStr ''Paris is in France.'')]" "[]" "''Paris is in France.''"
        "[]" "[]" "[]" "[]" "''Paris is in France.''" "[]" "[]" JNull]
      call [of "''Paris is in France.''"] l2
    by (simp add: answering_env_def candidate_text_def sublist_Cons_right)
  have l3: "demo_loads (strip spaced_paris) =
             Some (JObj [(''message'', JStr ''Paris''), (''zoom'', JInt 12)])"
    by (simp add: spaced_paris_def strip_def py_space_def utf8_width_def demo_loads_def)
  have c: "fst (fst (map_search (answering_env spaced_paris) ?req 7 ?g)) =
     Json 200 (JObj [(''mapData'', JObj [(''message'', JStr ''Paris''), (''zoom'', JInt 12)]),
                     (''content'', JStr ''Paris'')])"
    using map_search_parses_the_fenced_text [of "answering_env spaced_paris" ?req
        "[(''query'', JStr ''Paris'')]" 7 ?g
        "search_url (answering_env spaced_paris)" ?payload
        "\<lparr>ok = True, resp_json = Inr (candidate_text spaced_paris), resp_lines = [],
          resp_abort = None\<rparr>"
        "[(''candidates'',
           JArr [JObj [(''content'', JObj [(''parts'', JArr [JObj [(''text'', JStr spaced_paris)]])])]])]"
        "[(''content'', JObj [(''parts'', JArr [JObj [(''text'', JStr spaced_paris)]])])]" "[]"
        "[(''parts'', JArr [JObj [(''text'', JStr spaced_paris)]])]"
        "[(''text'', JStr spaced_paris)]" "[]" spaced_paris
        "[]" "[]" "[]" "[]" spaced_paris "[]"
        "[(''message'', JStr ''Paris''), (''zoom'', JInt 12)]" JNull]
      call [of spaced_paris] l3
    by (simp add: answering_env_def candidate_text_def)
       (simp add: spaced_paris_def sublist_Cons_right)
  from a b c show ?thesis by simp
qed

text \<open>
  C3, as stated, fails: for a json-tagged fenced block that is not valid JSON the
  \<open>content\<close> returned is the text inside the fence, not the candidate's text.
\<close>

theorem fallback_content_is_not_the_raw_text:
  "fst (fst (map_search (answering_env fenced_garbage)
               \<lparr>verb = POST, req_json = Inr (JObj [(''query'', JStr ''Paris'')])\<rparr>
               7 \<lparr>last_request_time = 0\<rparr>)) =
     Json 200 (JObj [(''content'', JStr ([CHR 0x0A] @ ''not json'' @ [CHR 0x0A]))])
   \<and> fst (fst (map_search (answering_env fenced_garbage)
               \<lparr>verb = POST, req_json = Inr (JObj [(''query'', JStr ''Paris'')])\<rparr>
               7 \<lparr>last_request_time = 0\<rparr>)) \<noteq>
     Json 200 (JObj [(''content'',
                JStr (''```json'' @ [CHR 0x0A] @ ''not json'' @ [CHR 0x0A] @ ''```''))])
   \<and> fenced_garbage = ''```json'' @ [CHR 0x0A] @ ''not json'' @ [CHR 0x0A] @ ''```''"
proof -
  have hc: "has_candidates (candidate_text t) = Inr True" for t
    by (simp add: has_candidates_def candidate_text_def bind_exc_def)
  have ft: "first_text (candidate_text t) = Inr (JStr t)" for t
    by (simp add: first_text_def candidate_text_def bind_exc_def)
  have l: "demo_loads (strip ([CHR 0x0A] @ ''not json'' @ [CHR 0x0A])) = None"
    by (simp add: strip_def py_space_def utf8_width_def demo_loads_def)
  have f: "fenced (JStr fenced_garbage) = Inr ([CHR 0x0A] @ ''not json'' @ [CHR 0x0A])"
    using fenced_tagged [of fenced_garbage "[]" "[CHR 0x0A] @ ''not json'' @ [CHR 0x0A] @ ''```''"
        "[CHR 0x0A] @ ''not json'' @ [CHR 0x0A] @ ''```''" "[]"
        "[CHR 0x0A] @ ''not json'' @ [CHR 0x0A]" "[]"]
    by (simp add: fenced_garbage_def sublist_Cons_right)
  have r: "fst (fst (map_search (answering_env fenced_garbage)
               \<lparr>verb = POST, req_json = Inr (JObj [(''query'', JStr ''Paris'')])\<rparr>
               7 \<lparr>last_request_time = 0\<rparr>)) =
     map_reply demo_loads (JStr fenced_garbage)"
    using hc ft
    by (simp add: map_search_def map_search_post_def map_search_reply_def bind_exc_def
        unwrap_def answering_env_def)
  have v: "map_reply demo_loads (JStr fenced_garbage) =
     Json 200 (JObj [(''content'', JStr ([CHR 0x0A] @ ''not json'' @ [CHR 0x0A]))])"
    using l by (simp only: map_reply_def f) simp
  from r v show ?thesis by (simp add: fenced_garbage_def)
qed

section \<open>Edit or generate\<close>

lemma image_request_parts_str:
  "image_request_parts str prompt (JStr s) =
     Inr (case match_data_uri s of
            Some (mime, payload) \<Rightarrow>
              ([inline_data mime payload,
                text_part (JStr (''Edit this image: '' @ fmt str prompt))], True)
          | None \<Rightarrow> ([text_part (JStr (''Generate an image: '' @ fmt str prompt))], False))"
  by (simp only: image_request_parts_def edit_block_str)
     (simp add: bind_exc_def split: option.splits)

text \<open>
  C4. For a POST to generate-image with the key configured and a prompt that is a string
  and not empty: when \<open>imageData\<close> is a string the pattern decodes, the payload posted
  holds the inline image block followed by the text \<^verbatim>\<open>Edit this image: {prompt}\<close>; when
  \<open>imageData\<close> is missing, null or a string the pattern does not decode, it holds only
  the text \<^verbatim>\<open>Generate an image: {prompt}\<close>.
\<close>

theorem image_request_is_edit_or_generate:
  assumes "GOOGLE_API_KEY env \<noteq> []" and "verb req = POST"
    and "req_json req = Inr (JObj kv)"
    and "map_of kv ''prompt'' = Some (JStr p)" and "p \<noteq> []"
  shows "(map_of kv ''imageData'' = Some (JStr s) \<and> match_data_uri s = Some (mime, payload) \<longrightarrow>
            snd (fst (generate_image env req now g)) =
              [(''https://generativelanguage.googleapis.com/v1beta/models/gemini-2.0-flash-exp-image-generation:generateContent?key=''
                  @ GOOGLE_API_KEY env,
                JObj [(''contents'',
                         JArr [JObj [(''parts'',
                            JArr [JObj [(''inlineData'',
                                    JObj [(''mimeType'', JStr mime), (''data'', JStr payload)])],
                                  JObj [(''text'', JStr (''Edit this image: '' @ p))]])]]),
                      (''generationConfig'',
                         JObj [(''responseModalities'', JArr [JStr ''TEXT'', JStr ''IMAGE''])])])])
       \<and> (map_of kv ''imageData'' = None \<or> map_of kv ''imageData'' = Some JNull
            \<or> map_of kv ''imageData'' = Some (JStr s) \<and> match_data_uri s = None \<longrightarrow>
            snd (fst (generate_image env req now g)) =
              [(''https://generativelanguage.googleapis.com/v1beta/models/gemini-2.0-flash-exp-image-generation:generateContent?key=''
                  @ GOOGLE_API_KEY env,
                JObj [(''contents'',
                         JArr [JObj [(''parts'', JArr [JObj [(''text'', JStr (''Generate an image: '' @ p))]])]]),
                      (''generationConfig'',
                         JObj [(''responseModalities'', JArr [JStr ''TEXT'', JStr ''IMAGE''])])])])"
proof (intro conjI impI)
  assume "map_of kv ''imageData'' = Some (JStr s) \<and> match_data_uri s = Some (mime, payload)"
  then show "snd (fst (generate_image env req now g)) =
              [(''https://generativelanguage.googleapis.com/v1beta/models/gemini-2.0-flash-exp-image-generation:generateContent?key=''
                  @ GOOGLE_API_KEY env,
                JObj [(''contents'',
                         JArr [JObj [(''parts'',
                            JArr [JObj [(''inlineData'',
                                    JObj [(''mimeType'', JStr mime), (''data'', JStr payload)])],
                                  JObj [(''text'', JStr (''Edit this image: '' @ p))]])]]),
                      (''generationConfig'',
                         JObj [(''responseModalities'', JArr [JStr ''TEXT'', JStr ''IMAGE''])])])]"
    using assms
    by (simp add: generate_image_def generate_image_post_def bind_exc_def
        image_request_parts_str image_url_def GEMINI_API_URL_def image_payload_def
        inline_data_def text_part_def)
next
  assume "map_of kv ''imageData'' = None \<or> map_of kv ''imageData'' = Some JNull
            \<or> map_of kv ''imageData'' = Some (JStr s) \<and> match_data_uri s = None"
  then consider (absent) "map_of kv ''imageData'' = None"
    | (null) "map_of kv ''imageData'' = Some JNull"
    | (other) "map_of kv ''imageData'' = Some (JStr s)" "match_data_uri s = None"
    by auto
  then show "snd (fst (generate_image env req now g)) =
              [(''https://generativelanguage.googleapis.com/v1beta/models/gemini-2.0-flash-exp-image-generation:generateContent?key=''
                  @ GOOGLE_API_KEY env,
                JObj [(''contents'',
                         JArr [JObj [(''parts'', JArr [JObj [(''text'', JStr (''Generate an image: '' @ p))]])]]),
                      (''generationConfig'',
                         JObj [(''responseModalities'', JArr [JStr ''TEXT'', JStr ''IMAGE''])])])]"
  proof cases
    case absent
    with assms show ?thesis
      by (simp add: generate_image_def generate_image_post_def bind_exc_def
          image_request_parts_def image_url_def GEMINI_API_URL_def image_payload_def
          text_part_def)
  next
    case null
    with assms show ?thesis
      by (simp add: generate_image_def generate_image_post_def bind_exc_def
          image_request_parts_def image_url_def GEMINI_API_URL_def image_payload_def
          text_part_def)
  next
    case other
    with assms show ?thesis
      by (simp add: generate_image_def generate_image_post_def bind_exc_def
          image_request_parts_str image_url_def GEMINI_API_URL_def image_payload_def
          text_part_def)
  qed
qed

theorem image_request_is_edit_or_generate_witness:
  "snd (fst (generate_image offline_env
       \<lparr>verb = POST,
        req_json = Inr (JObj [(''prompt'', JStr ''a hat''),
                              (''imageData'', JStr ''data:image/png;base64,iVBORw0KGgo='')])\<rparr>
       7 \<lparr>last_request_time = 0\<rparr>)) =
     [(''https://generativelanguage.googleapis.com/v1beta/models/gemini-2.0-flash-exp-image-generation:generateContent?key=''
                  @ GOOGLE_API_KEY offline_env,
                JObj [(''contents'',
                         JArr [JObj [(''parts'',
                            JArr [JObj [(''inlineData'',
                                    JObj [(''mimeType'', JStr ''image/png''), (''data'', JStr ''iVBORw0KGgo='')])],
                                  JObj [(''text'', JStr ''Edit this image: a hat'')]])]]),
                      (''generationConfig'',
                         JObj [(''responseModalities'', JArr [JStr ''TEXT'', JStr ''IMAGE''])])])]
   \<and> snd (fst (generate_image offline_env
       \<lparr>verb = POST, req_json = Inr (JObj [(''prompt'', JStr ''a red circle'')])\<rparr>
       7 \<lparr>last_request_time = 0\<rparr>)) =
     [(''https://generativelanguage.googleapis.com/v1beta/models/gemini-2.0-flash-exp-image-generation:generateContent?key=''
                  @ GOOGLE_API_KEY offline_env,
                JObj [(''contents'',
                         JArr [JObj [(''parts'', JArr [JObj [(''text'', JStr ''Generate an image: a red circle'')]])]]),
                      (''generationConfig'',
                         JObj [(''responseModalities'', JArr [JStr ''TEXT'', JStr ''IMAGE''])])])]"
proof -
  have m: "match_data_uri ''data:image/png;base64,iVBORw0KGgo='' =
             Some (''image/png'', ''iVBORw0KGgo='')"
    by (simp add: match_data_uri_def newline_def Let_def)
  have k: "GOOGLE_API_KEY offline_env \<noteq> []"
    by (simp add: offline_env_def)
  show ?thesis
    using
      image_request_is_edit_or_generate [of offline_env
        "\<lparr>verb = POST,
          req_json = Inr (JObj [(''prompt'', JStr ''a hat''),
                                (''imageData'', JStr ''data:image/png;base64,iVBORw0KGgo='')])\<rparr>"
        "[(''prompt'', JStr ''a hat''),
          (''imageData'', JStr ''data:image/png;base64,iVBORw0KGgo='')]"
        "''a hat''" "''data:image/png;base64,iVBORw0KGgo=''" "''image/png''" "''iVBORw0KGgo=''"
        7 "\<lparr>last_request_time = 0\<rparr>"]
      image_request_is_edit_or_generate [of offline_env
        "\<lparr>verb = POST, req_json = Inr (JObj [(''prompt'', JStr ''a red circle'')])\<rparr>"
        "[(''prompt'', JStr ''a red circle'')]" "''a red circle''" "[]" "[]" "[]"
        7 "\<lparr>last_request_time = 0\<rparr>"]
      m k
    by simp
qed

section \<open>The top-level image of a chat request\<close>






section \<open>The contents built from the messages of a chat request\<close>

lemma image_parts_field:
  "is_image_field im \<Longrightarrow>
   image_parts im =
     Inr (case im of
            JStr s \<Rightarrow> (case match_data_uri s of
                         Some (mime, payload) \<Rightarrow> [inline_data mime payload]
                       | None \<Rightarrow> [])
          | _ \<Rightarrow> [])"
  by (cases im) (simp_all only: image_parts_str, simp_all)

lemma image_parts_result:
  "image_parts im = Inr ps \<Longrightarrow>
   ps = (case im of
           JStr s \<Rightarrow> (case match_data_uri s of
                        Some (mime, payload) \<Rightarrow> [inline_data mime payload]
                      | None \<Rightarrow> [])
         | _ \<Rightarrow> [])"
proof (cases "is_image_field im")
  case True
  assume "image_parts im = Inr ps"
  with image_parts_field [OF True] show ?thesis by simp
next
  case False
  assume r: "image_parts im = Inr ps"
  from False have "image_parts im = Inl AttributeError" by (cases im) simp_all
  with r show ?thesis by simp
qed

lemma msg_image_field:
  assumes "is_turn msg" and "is_image_field image_data"
  shows "\<exists>im. msg_image (JArr msgs) image_data i msg = Inr im \<and> is_image_field im"
proof -
  from assms(1) obtain kv where msg: "msg = JObj kv" by (cases msg) simp_all
  let ?own = "case map_of kv ''imageData'' of None \<Rightarrow> JNull | Some v \<Rightarrow> v"
  from assms(1) msg have own: "is_image_field ?own" by simp
  show ?thesis
    using own assms(2) msg by (simp add: msg_image_def bind_exc_def)
qed

lemma build_turn_total:
  assumes "is_turn msg" and "is_image_field image_data"
  shows "\<exists>t. build_turn (JArr msgs) image_data i msg = Inr t"
proof -
  from assms(1) obtain kv where msg: "msg = JObj kv" by (cases msg) simp_all
  from assms(1) msg obtain r c where r: "map_of kv ''role'' = Some r"
    and c: "map_of kv ''content'' = Some c" by auto
  from msg_image_field [OF assms] obtain im
    where im: "msg_image (JArr msgs) image_data i msg = Inr im" and f: "is_image_field im"
    by blast
  show ?thesis
    using msg r c im image_parts_field [OF f]
    by (simp add: build_turn_def bind_exc_def)
qed

lemma build_contents_total:
  assumes "is_image_field image_data"
  shows "\<forall>m\<in>set rest. is_turn m \<Longrightarrow>
         \<exists>cs. build_contents (JArr msgs) image_data i rest = Inr cs"
proof (induction rest arbitrary: i)
  case Nil
  then show ?case by simp
next
  case (Cons m rest)
  from Cons.prems have "is_turn m" and "\<forall>m\<in>set rest. is_turn m" by simp_all
  with build_turn_total [OF _ assms, of m msgs i] Cons.IH [of "Suc i"]
  obtain t cs where "build_turn (JArr msgs) image_data i m = Inr t"
    and "build_contents (JArr msgs) image_data (Suc i) rest = Inr cs" by blast
  then show ?case by (simp add: bind_exc_def)
qed

lemma build_turn_result:
  assumes "build_turn messages image_data i msg = Inr t"
  shows "\<exists>r c im. getitem msg ''role'' = Inr r \<and> getitem msg ''content'' = Inr c
           \<and> msg_image messages image_data i msg = Inr im
           \<and> t = JObj [(''role'', JStr (if r = JStr ''user'' then ''user'' else ''model'')),
                       (''parts'',
                        JArr ((case im of
                                 JStr s \<Rightarrow> (case match_data_uri s of
                                              Some (mime, payload) \<Rightarrow> [inline_data mime payload]
                                            | None \<Rightarrow> [])
                               | _ \<Rightarrow> []) @ [text_part c]))]"
proof -
  from assms obtain r where r: "getitem msg ''role'' = Inr r"
    by (cases "getitem msg ''role''") (simp_all add: build_turn_def bind_exc_def)
  from assms r obtain im where im: "msg_image messages image_data i msg = Inr im"
    by (cases "msg_image messages image_data i msg") (simp_all add: build_turn_def bind_exc_def)
  from assms r im obtain ps where ps: "image_parts im = Inr ps"
    by (cases "image_parts im") (simp_all add: build_turn_def bind_exc_def)
  from assms r im ps obtain c where c: "getitem msg ''content'' = Inr c"
    by (cases "getitem msg ''content''") (simp_all add: build_turn_def bind_exc_def)
  from assms r im ps c image_parts_result [OF ps] show ?thesis
    by (simp add: build_turn_def bind_exc_def)
qed

lemma build_contents_result:
  "build_contents messages image_data i rest = Inr cs \<Longrightarrow>
   length cs = length rest
   \<and> (\<forall>j<length rest. build_turn messages image_data (i + j) (rest ! j) = Inr (cs ! j))"
proof (induction rest arbitrary: i cs)
  case Nil
  then show ?case by simp
next
  case (Cons m rest)
  from Cons.prems obtain t where t: "build_turn messages image_data i m = Inr t"
    by (cases "build_turn messages image_data i m") (simp_all add: bind_exc_def)
  from Cons.prems t obtain ts where ts: "build_contents messages image_data (Suc i) rest = Inr ts"
    by (cases "build_contents messages image_data (Suc i) rest") (simp_all add: bind_exc_def)
  from Cons.prems t ts have cs: "cs = t # ts" by (simp add: bind_exc_def)
  from Cons.IH [OF ts] have len: "length ts = length rest"
    and el: "\<And>j. j < length rest \<Longrightarrow>
               build_turn messages image_data (Suc i + j) (rest ! j) = Inr (ts ! j)"
    by simp_all
  have "build_turn messages image_data (i + j) ((m # rest) ! j) = Inr (cs ! j)"
    if "j < length (m # rest)" for j
  proof (cases j)
    case 0
    with t cs show ?thesis by simp
  next
    case (Suc k)
    with that have "k < length rest" by simp
    from el [OF this] Suc cs show ?thesis by simp
  qed
  with len cs show ?case by simp
qed

lemma turn_of_message:
  assumes "is_turn msg" and "is_image_field image_data"
    and "build_turn (JArr msgs) image_data i msg = Inr t"
  shows "\<exists>fields r c.
           msg = JObj fields \<and> map_of fields ''role'' = Some r
         \<and> map_of fields ''content'' = Some c
         \<and> t = JObj
               [(''role'', JStr (if r = JStr ''user'' then ''user'' else ''model'')),
                (''parts'',
                 JArr ((case (let own = (case map_of fields ''imageData'' of
                                           None \<Rightarrow> JNull | Some v \<Rightarrow> v)
                              in if truthy own then own
                                 else if Suc i = length msgs then image_data else JNull) of
                          JStr s \<Rightarrow>
                            (case match_data_uri s of
                               Some (mime, payload) \<Rightarrow>
                                 [JObj [(''inlineData'',
                                     JObj [(''mimeType'', JStr mime), (''data'', JStr payload)])]]
                             | None \<Rightarrow> [])
                        | _ \<Rightarrow> [])
                       @ [JObj [(''text'', c)]]))]"
proof -
  from assms(1) obtain fields where msg: "msg = JObj fields" by (cases msg) simp_all
  from assms(1) msg obtain r c where r: "map_of fields ''role'' = Some r"
    and c: "map_of fields ''content'' = Some c" by auto
  let ?own = "case map_of fields ''imageData'' of None \<Rightarrow> JNull | Some v \<Rightarrow> v"
  let ?im = "if truthy ?own then ?own else if Suc i = length msgs then image_data else JNull"
  have im: "msg_image (JArr msgs) image_data i msg = Inr ?im"
    using msg by (auto simp add: msg_image_def bind_exc_def)
  from build_turn_result [OF assms(3)] obtain r' c' im' where
    "getitem msg ''role'' = Inr r'" and "getitem msg ''content'' = Inr c'"
    and "msg_image (JArr msgs) image_data i msg = Inr im'"
    and t: "t = JObj [(''role'', JStr (if r' = JStr ''user'' then ''user'' else ''model'')),
                       (''parts'',
                        JArr ((case im' of
                                 JStr s \<Rightarrow> (case match_data_uri s of
                                              Some (mime, payload) \<Rightarrow> [inline_data mime payload]
                                            | None \<Rightarrow> [])
                               | _ \<Rightarrow> []) @ [text_part c']))]"
    by blast
  with msg r c im have e: "r' = r" "c' = c" "im' = ?im" by simp_all
  have i: "inline_data = (\<lambda>mime payload.
             JObj [(''inlineData'', JObj [(''mimeType'', JStr mime), (''data'', JStr payload)])])"
    by (intro ext) (simp add: inline_data_def)
  show ?thesis
  proof (rule exI [of _ fields], rule exI [of _ r], rule exI [of _ c], intro conjI)
    show "msg = JObj fields" by (rule msg)
    show "map_of fields ''role'' = Some r" by (rule r)
    show "map_of fields ''content'' = Some c" by (rule c)
    show "t = JObj
               [(''role'', JStr (if r = JStr ''user'' then ''user'' else ''model'')),
                (''parts'',
                 JArr ((case (let own = (case map_of fields ''imageData'' of
                                           None \<Rightarrow> JNull | Some v \<Rightarrow> v)
                              in if truthy own then own
                                 else if Suc i = length msgs then image_data else JNull) of
                          JStr s \<Rightarrow>
                            (case match_data_uri s of
                               Some (mime, payload) \<Rightarrow>
                                 [JObj [(''inlineData'',
                                     JObj [(''mimeType'', JStr mime), (''data'', JStr payload)])]]
                             | None \<Rightarrow> [])
                        | _ \<Rightarrow> [])
                       @ [JObj [(''text'', c)]]))]"
      by (simp only: t e i text_part_def Let_def)
  qed
qed

text \<open>
  C7. For a POST to chat with the key configured whose \<open>messages\<close> is a list of turns
  (and whose top-level \<open>imageData\<close>, if any, is an image field), the payload posted
  upstream carries contents that have the length of the list and follow its order:
  element \<open>i\<close> is built from message \<open>i\<close>, its role is \<open>user\<close> when the role of the
  message is \<open>user\<close> and \<open>model\<close> for any other role, and its parts end with the text
  block of the message's content, preceded by the inline image block when the image of the
  turn (its own, or for the final turn without one the top-level image) decodes.
\<close>

theorem chat_contents_follow_the_messages:
  assumes "GOOGLE_API_KEY env \<noteq> []" and "verb req = POST"
    and "req_json req = Inr (JObj kv)"
    and "map_of kv ''messages'' = Some (JArr msgs)"
    and "image_data = (case map_of kv ''imageData'' of None \<Rightarrow> JNull | Some v \<Rightarrow> v)"
    and "is_image_field image_data"
    and "\<forall>m\<in>set msgs. is_turn m"
  shows "\<exists>cs.
           snd (fst (chat env req now g)) =
             [(''https://generativelanguage.googleapis.com/v1beta/models/gemini-2.0-flash:streamGenerateContent?key=''
                 @ GOOGLE_API_KEY env @ ''&alt=sse'',
               JObj [(''contents'', JArr cs),
                     (''systemInstruction'',
                        JObj [(''parts'',
                           JArr [JObj [(''text'',
                              JStr (chat_system_prompt
                                    @ (if map_of kv ''mode'' = Some (JStr ''code'')
                                       then build_mode_suffix else [])))]])]),
                     (''generationConfig'', JObj [(''temperature'', JFloat (7 / 10)),
                                                  (''maxOutputTokens'', JInt 8192)])])]
         \<and> length cs = length msgs
         \<and> (\<forall>i<length msgs. \<exists>fields r c.
               msgs ! i = JObj fields \<and> map_of fields ''role'' = Some r
             \<and> map_of fields ''content'' = Some c
             \<and> cs ! i =
                 JObj
                   [(''role'', JStr (if r = JStr ''user'' then ''user'' else ''model'')),
                    (''parts'',
                     JArr ((case (let own = (case map_of fields ''imageData'' of
                                               None \<Rightarrow> JNull | Some v \<Rightarrow> v)
                                  in if truthy own then own
                                     else if Suc i = length msgs then image_data else JNull) of
                              JStr s \<Rightarrow>
                                (case match_data_uri s of
                                   Some (mime, payload) \<Rightarrow>
                                     [JObj [(''inlineData'',
                                         JObj [(''mimeType'', JStr mime),
                                               (''data'', JStr payload)])]]
                                 | None \<Rightarrow> [])
                            | _ \<Rightarrow> [])
                           @ [JObj [(''text'', c)]]))])"
proof -
  from build_contents_total [OF assms(6,7), of msgs 0]
  obtain cs where cs: "build_contents (JArr msgs) image_data 0 msgs = Inr cs" by blast
  define sp where "sp = chat_system_prompt @
     (if map_of kv ''mode'' = Some (JStr ''code'') then build_mode_suffix else [])"
  have md: "((case map_of kv ''mode'' of None \<Rightarrow> JStr ''chat'' | Some v \<Rightarrow> v) = JStr ''code'')
             = (map_of kv ''mode'' = Some (JStr ''code''))"
    by (cases "map_of kv ''mode''") simp_all
  have inp: "chat_inputs req = Inr (cs, sp)"
    using assms(3,4,5) cs by (simp add: chat_inputs_def bind_exc_def sp_def md)
  have out: "snd (fst (chat env req now g)) = [(chat_url env, chat_payload cs sp)]"
    using assms(1,2) inp by (simp add: chat_def chat_post_def)
  from build_contents_result [OF cs] have len: "length cs = length msgs"
    and el: "\<And>i. i < length msgs \<Longrightarrow>
               build_turn (JArr msgs) image_data i (msgs ! i) = Inr (cs ! i)"
    by simp_all
  have turns: "\<forall>i<length msgs. \<exists>fields r c.
               msgs ! i = JObj fields \<and> map_of fields ''role'' = Some r
             \<and> map_of fields ''content'' = Some c
             \<and> cs ! i =
                 JObj
                   [(''role'', JStr (if r = JStr ''user'' then ''user'' else ''model'')),
                    (''parts'',
                     JArr ((case (let own = (case map_of fields ''imageData'' of
                                               None \<Rightarrow> JNull | Some v \<Rightarrow> v)
                                  in if truthy own then own
                                     else if Suc i = length msgs then image_data else JNull) of
                              JStr s \<Rightarrow>
                                (case match_data_uri s of
                                   Some (mime, payload) \<Rightarrow>
                                     [JObj [(''inlineData'',
                                         JObj [(''mimeType'', JStr mime),
                                               (''data'', JStr payload)])]]
                                 | None \<Rightarrow> [])
                            | _ \<Rightarrow> [])
                           @ [JObj [(''text'', c)]]))]"
  proof (intro allI impI)
    fix i assume i: "i < length msgs"
    then have "is_turn (msgs ! i)" using assms(7) by simp
    from turn_of_message [OF this assms(6) el [OF i]]
    show "\<exists>fields r c.
               msgs ! i = JObj fields \<and> map_of fields ''role'' = Some r
             \<and> map_of fields ''content'' = Some c
             \<and> cs ! i =
                 JObj
                   [(''role'', JStr (if r = JStr ''user'' then ''user'' else ''model'')),
                    (''parts'',
                     JArr ((case (let own = (case map_of fields ''imageData'' of
                                               None \<Rightarrow> JNull | Some v \<Rightarrow> v)
                                  in if truthy own then own
                                     else if Suc i = length msgs then image_data else JNull) of
                              JStr s \<Rightarrow>
                                (case match_data_uri s of
                                   Some (mime, payload) \<Rightarrow>
                                     [JObj [(''inlineData'',
                                         JObj [(''mimeType'', JStr mime),
                                               (''data'', JStr payload)])]]
                                 | None \<Rightarrow> [])
                            | _ \<Rightarrow> [])
                           @ [JObj [(''text'', c)]]))]" .
  qed
  have pay: "snd (fst (chat env req now g)) =
             [(''https://generativelanguage.googleapis.com/v1beta/models/gemini-2.0-flash:streamGenerateContent?key=''
                 @ GOOGLE_API_KEY env @ ''&alt=sse'',
               JObj [(''contents'', JArr cs),
                     (''systemInstruction'',
                        JObj [(''parts'',
                           JArr [JObj [(''text'',
                              JStr (chat_system_prompt
                                    @ (if map_of kv ''mode'' = Some (JStr ''code'')
                                       then build_mode_suffix else [])))]])]),
                     (''generationConfig'', JObj [(''temperature'', JFloat (7 / 10)),
                                                  (''maxOutputTokens'', JInt 8192)])])]"
    using out
    by (simp add: chat_url_def GEMINI_API_URL_def chat_payload_def text_part_def sp_def)
  from pay len turns show ?thesis by blast
qed

theorem chat_contents_follow_the_messages_witness:
  "snd (fst (chat offline_env
          \<lparr>verb = POST,
           req_json = Inr (JObj [(''messages'', JArr two_turns), (''mode'', JStr ''chat'')])\<rparr>
          7 \<lparr>last_request_time = 0\<rparr>)) =
     [(''https://generativelanguage.googleapis.com/v1beta/models/gemini-2.0-flash:streamGenerateContent?key=''
         @ ''k'' @ ''&alt=sse'',
       JObj [(''contents'',
                JArr [JObj [(''role'', JStr ''user''),
                            (''parts'', JArr [JObj [(''text'', JStr ''hello'')]])],
                      JObj [(''role'', JStr ''model''),
                            (''parts'',
                             JArr [JObj [(''inlineData'',
                                     JObj [(''mimeType'', JStr ''image/gif''),
                                           (''data'', JStr ''R0lGOD=='')])],
                                   JObj [(''text'', JStr ''hi'')]])]]),
             (''systemInstruction'',
                JObj [(''parts'', JArr [JObj [(''text'', JStr chat_system_prompt)]])]),
             (''generationConfig'', JObj [(''temperature'', JFloat (7 / 10)),
                                          (''maxOutputTokens'', JInt 8192)])])]"
proof -
  have m: "match_data_uri ''data:image/gif;base64,R0lGOD=='' = Some (''image/gif'', ''R0lGOD=='')"
    by (simp add: match_data_uri_def newline_def Let_def)
  have c: "build_contents (JArr two_turns) JNull 0 two_turns =
             Inr [JObj [(''role'', JStr ''user''),
                        (''parts'', JArr [JObj [(''text'', JStr ''hello'')]])],
                  JObj [(''role'', JStr ''model''),
                        (''parts'',
                         JArr [JObj [(''inlineData'',
                                 JObj [(''mimeType'', JStr ''image/gif''),
                                       (''data'', JStr ''R0lGOD=='')])],
                               JObj [(''text'', JStr ''hi'')]])]]"
    using m
    by (simp add: two_turns_def build_turn_def msg_image_def bind_exc_def inline_data_def
        text_part_def)
  have k: "GOOGLE_API_KEY offline_env = ''k''" by (simp add: offline_env_def)
  have t: "\<forall>m\<in>set two_turns. is_turn m" by (simp add: two_turns_def)
  show ?thesis
    using chat_contents_follow_the_messages [of offline_env
        "\<lparr>verb = POST,
          req_json = Inr (JObj [(''messages'', JArr two_turns), (''mode'', JStr ''chat'')])\<rparr>"
        "[(''messages'', JArr two_turns), (''mode'', JStr ''chat'')]"
        two_turns JNull 7 "\<lparr>last_request_time = 0\<rparr>"]
      c k t
    by (simp add: chat_def chat_post_def chat_inputs_def bind_exc_def chat_url_def
        GEMINI_API_URL_def chat_payload_def text_part_def)
qed

section \<open>The prompt of an image request\<close>

text \<open>
  C8. With the key configured, a POST to generate-image whose JSON object has no
  \<open>prompt\<close>, or the empty string as \<open>prompt\<close>, is answered 400
  \<^verbatim>\<open>{"error": "Prompt is required"}\<close>, and no upstream call is made.
\<close>

theorem missing_prompt_is_client_error:
  assumes "GOOGLE_API_KEY env \<noteq> []" and "verb req = POST"
    and "req_json req = Inr (JObj kv)"
    and "map_of kv ''prompt'' = None \<or> map_of kv ''prompt'' = Some (JStr [])"
  shows "fst (generate_image env req now g) =
           (Json 400 (JObj [(''error'', JStr ''Prompt is required'')]), [])"
  using assms
  by (auto simp add: generate_image_def generate_image_post_def bind_exc_def)

theorem missing_prompt_is_client_error_witness:
  "fst (generate_image offline_env
          \<lparr>verb = POST,
           req_json = Inr (JObj [(''imageData'', JStr ''data:image/png;base64,AAAA'')])\<rparr>
          7 \<lparr>last_request_time = 0\<rparr>) =
     (Json 400 (JObj [(''error'', JStr ''Prompt is required'')]), [])"
  using missing_prompt_is_client_error [of offline_env
      "\<lparr>verb = POST,
        req_json = Inr (JObj [(''imageData'', JStr ''data:image/png;base64,AAAA'')])\<rparr>"
      "[(''imageData'', JStr ''data:image/png;base64,AAAA'')]" 7 "\<lparr>last_request_time = 0\<rparr>"]
  by (simp add: offline_env_def)

section \<open>The uptime of the health endpoint\<close>

text \<open>
  C9. \<open>health_check\<close> overwrites the liveness timestamp with the clock reading \<open>t1\<close> of
  \<open>warm_up\<close> and then computes \<open>uptime_seconds\<close> from that timestamp and the second
  reading \<open>t2\<close>: the value reported is the truncated time between the two readings of
  the same call, whatever the timestamp was before, and it is 0 when the two readings are
  less than a second apart.
\<close>

theorem health_uptime_is_within_the_call:
  "health_check t1 t2 g =
     (Json 200 (JObj [(''status'', JStr ''ok''),
                      (''service'', JStr ''lepen-ai-backend''),
                      (''uptime_seconds'', JInt (py_int (t2 - t1))),
                      (''ready'', JBool True)]),
      g\<lparr>last_request_time := t1\<rparr>)
   \<and> fst (health_check t1 t2 g) = fst (health_check t1 t2 (g\<lparr>last_request_time := earlier\<rparr>))
   \<and> (t1 \<le> t2 \<and> t2 < t1 + 1 \<longrightarrow> py_int (t2 - t1) = 0)"
  by (auto simp add: health_check_def warm_up_def py_int_def Let_def floor_eq_iff)

theorem health_uptime_is_within_the_call_witness:
  "health_check 1000 (4001 / 4) \<lparr>last_request_time = 5\<rparr> =
     (Json 200 (JObj [(''status'', JStr ''ok''),
                      (''service'', JStr ''lepen-ai-backend''),
                      (''uptime_seconds'', JInt 0),
                      (''ready'', JBool True)]),
      \<lparr>last_request_time = 1000\<rparr>)"
  using health_uptime_is_within_the_call [of 1000 "4001 / 4" "\<lparr>last_request_time = 5\<rparr>" 0]
  by simp

section \<open>The query of a search request\<close>

lemma web_search_reply_status:
  "web_search_reply posted = Inr resp \<Longrightarrow> status resp = 200 \<or> status resp = 500"
  by (auto simp add: web_search_reply_def bind_exc_def split: sum.splits if_splits)

lemma map_reply_status: "status (map_reply loads content) = 200"
  by (simp add: map_reply_def split: sum.splits option.splits)

lemma map_search_reply_status:
  "map_search_reply loads posted = Inr resp \<Longrightarrow> status resp = 200 \<or> status resp = 500"
  by (auto simp add: map_search_reply_def bind_exc_def map_reply_status split: sum.splits if_splits)

lemma web_search_unwrap_status: "status (unwrap (web_search_reply posted)) \<noteq> 400"
proof (cases "web_search_reply posted")
  case (Inl e)
  then show ?thesis by (simp add: unwrap_def)
next
  case (Inr resp)
  with web_search_reply_status [OF Inr] show ?thesis by (auto simp add: unwrap_def)
qed

lemma map_search_unwrap_status: "status (unwrap (map_search_reply loads posted)) \<noteq> 400"
proof (cases "map_search_reply loads posted")
  case (Inl e)
  then show ?thesis by (simp add: unwrap_def)
next
  case (Inr resp)
  with map_search_reply_status [OF Inr] show ?thesis by (auto simp add: unwrap_def)
qed

lemma web_search_never_400: "status (fst (fst (web_search env req now g))) \<noteq> 400"
  by (simp add: web_search_def web_search_post_def not_configured_def web_search_unwrap_status
      split: sum.splits)

lemma map_search_never_400: "status (fst (fst (map_search env req now g))) \<noteq> 400"
  by (simp add: map_search_def map_search_post_def not_configured_def map_search_unwrap_status
      split: sum.splits)

text \<open>
  C10. With the key configured, a POST to web-search or map-search whose JSON object has
  no \<open>query\<close>, or the empty string as \<open>query\<close>, still makes the upstream call, with the
  empty string interpolated into the instruction text; the answer is never a 400.
\<close>

theorem query_is_not_validated:
  assumes "GOOGLE_API_KEY env \<noteq> []" and "verb req = POST"
    and "req_json req = Inr (JObj kv)"
    and "map_of kv ''query'' = None \<or> map_of kv ''query'' = Some (JStr [])"
  shows "snd (fst (web_search env req now g)) =
           [(search_url env,
             JObj [(''contents'', JArr [JObj [(''parts'',
                      JArr [JObj [(''text'',
                        JStr ''Search and provide detailed information about: '')]])]]),
                   (''tools'', JArr [JObj [(''googleSearch'', JObj [])]]),
                   (''generationConfig'', JObj [(''temperature'', JFloat (3 / 10)),
                                                (''maxOutputTokens'', JInt 4096)])])]
       \<and> snd (fst (map_search env req now g)) =
           [(search_url env,
             JObj [(''contents'', JArr [JObj [(''parts'',
                      JArr [JObj [(''text'', JStr ''Find location information for: '')]])]]),
                   (''systemInstruction'',
                      JObj [(''parts'', JArr [JObj [(''text'', JStr map_system_prompt)]])]),
                   (''generationConfig'', JObj [(''temperature'', JFloat (2 / 10)),
                                                (''maxOutputTokens'', JInt 2048)])])]
       \<and> status (fst (fst (web_search env req now g))) \<noteq> 400
       \<and> status (fst (fst (map_search env req now g))) \<noteq> 400"
proof -
  from assms(4) have q: "dict_get (JObj kv) ''query'' (JStr []) = Inr (JStr [])"
    by auto
  have w: "snd (fst (web_search env req now g)) =
             [(search_url env, web_search_payload (py_str env) (JStr []))]"
    using assms(1-3) q by (simp add: web_search_def web_search_post_def bind_exc_def)
  have m: "snd (fst (map_search env req now g)) =
             [(search_url env, map_search_payload (py_str env) (JStr []))]"
    using assms(1-3) q by (simp add: map_search_def map_search_post_def bind_exc_def)
  show ?thesis
    using w m web_search_never_400 [of env req now g] map_search_never_400 [of env req now g]
    by (simp add: web_search_payload_def map_search_payload_def text_part_def)
qed

theorem query_is_not_validated_witness:
  "snd (fst (web_search offline_env \<lparr>verb = POST, req_json = Inr (JObj [])\<rparr> 7 \<lparr>last_request_time = 0\<rparr>)) =
           [(search_url offline_env,
             JObj [(''contents'', JArr [JObj [(''parts'',
                      JArr [JObj [(''text'',
                        JStr ''Search and provide detailed information about: '')]])]]),
                   (''tools'', JArr [JObj [(''googleSearch'', JObj [])]]),
                   (''generationConfig'', JObj [(''temperature'', JFloat (3 / 10)),
                                                (''maxOutputTokens'', JInt 4096)])])]
   \<and> snd (fst (map_search offline_env \<lparr>verb = POST, req_json = Inr (JObj [])\<rparr> 7 \<lparr>last_request_time = 0\<rparr>)) =
           [(search_url offline_env,
             JObj [(''contents'', JArr [JObj [(''parts'',
                      JArr [JObj [(''text'', JStr ''Find location information for: '')]])]]),
                   (''systemInstruction'',
                      JObj [(''parts'', JArr [JObj [(''text'', JStr map_system_prompt)]])]),
                   (''generationConfig'', JObj [(''temperature'', JFloat (2 / 10)),
                                                (''maxOutputTokens'', JInt 2048)])])]
   \<and> status (fst (fst (web_search offline_env \<lparr>verb = POST, req_json = Inr (JObj [])\<rparr> 7 \<lparr>last_request_time = 0\<rparr>))) = 500
   \<and> status (fst (fst (map_search offline_env \<lparr>verb = POST, req_json = Inr (JObj [])\<rparr> 7 \<lparr>last_request_time = 0\<rparr>))) = 500"
  using query_is_not_validated [of offline_env "\<lparr>verb = POST, req_json = Inr (JObj [])\<rparr>" "[]" 7 "\<lparr>last_request_time = 0\<rparr>"]
  by (simp add: offline_env_def web_search_def web_search_post_def map_search_def map_search_post_def
       bind_exc_def refused_def unwrap_def web_search_reply_def map_search_reply_def)

end
